theory Spec2Isabelle
  imports Main "HOL-Library.Sublist"
begin

section \<open>Scaffold generation in leetgo: package lang, file gen.go\<close>

text \<open>
  The development embeds \<^verbatim>\<open>src/lang/gen.go\<close>: the generator interface, the template
  composition of \<^verbatim>\<open>baseLang\<close>, generator resolution (\<^verbatim>\<open>GetGenerator\<close>), the file
  writer (\<^verbatim>\<open>tryWrite\<close>) and the dispatching \<^verbatim>\<open>Generate\<close>.

  Go strings are byte sequences and become \<^typ>\<open>string\<close>. Every collaborator that
  the package reads ambiently (the configuration singleton, viper, the wall clock, the
  file system, the interactive prompt, the persisted state, the logger) is made an
  explicit argument or a field of the world that is passed through.
\<close>

subsection \<open>Errors\<close>

text \<open>
  A Go \<^verbatim>\<open>error\<close> built by \<^verbatim>\<open>errors.New\<close> or \<^verbatim>\<open>fmt.Errorf\<close> is its message.
\<close>

datatype error = Error string

definition NotSupported :: error where
  "NotSupported = Error ''not supported''"

definition NotImplemented :: error where
  "NotImplemented = Error ''not implemented''"

text \<open>The two errors that the dispatching \<^verbatim>\<open>Generate\<close> builds itself (lines 164 and 169).\<close>

definition LanguageUnsupported :: "string \<Rightarrow> error" where
  "LanguageUnsupported lang =
     Error (''language '' @ lang @ '' is not supported yet, welcome to send a PR'')"

definition SnippetMissing :: "string \<Rightarrow> string \<Rightarrow> error" where
  "SnippetMissing lang titleSlug =
     Error (''no '' @ lang @ '' code snippet found for '' @ titleSlug)"

subsection \<open>Library functions on strings and paths\<close>

abbreviation nl :: string where
  "nl \<equiv> [CHR 0x0A]"

text \<open>\<^verbatim>\<open>strings.Join(elems, sep)\<close>.\<close>

fun Join :: "string list \<Rightarrow> string \<Rightarrow> string" where
  "Join [] sep = []"
| "Join [x] sep = x"
| "Join (x # y # ys) sep = x @ sep @ Join (y # ys) sep"

text \<open>
  \<^verbatim>\<open>strings.ToLower\<close> on a string of ASCII bytes: the capitals \<^verbatim>\<open>A\<close> to \<^verbatim>\<open>Z\<close>
  are mapped to their lower-case letters, every other byte is kept.
\<close>

definition toLower_char :: "char \<Rightarrow> char" where
  "toLower_char c =
     (let n = (of_char c :: nat) in if 65 \<le> n \<and> n \<le> 90 then char_of (n + 32) else c)"

definition isASCII :: "string \<Rightarrow> bool" where
  "isASCII s = list_all (\<lambda>c. (of_char c :: nat) < 128) s"

text \<open>\<^verbatim>\<open>strings.HasPrefix(s, p)\<close>.\<close>

definition HasPrefix :: "string \<Rightarrow> string \<Rightarrow> bool" where
  "HasPrefix s p = prefix p s"

text \<open>
  \<^verbatim>\<open>filepath.Join\<close> as Go defines it on Unix: the elements from the first non-empty
  one on are joined with slashes and the result is cleaned. \<^verbatim>\<open>filepath.Clean\<close>
  drops empty elements and \<^verbatim>\<open>.\<close> elements, lets a \<^verbatim>\<open>..\<close> element remove the
  element before it (at the root it is dropped, at the start of a relative path it
  stays), and returns \<^verbatim>\<open>.\<close> for an empty result.
\<close>

fun splitPath :: "string \<Rightarrow> string list" where
  "splitPath [] = [[]]"
| "splitPath (c # cs) =
     (if c = CHR ''/'' then [] # splitPath cs
      else (case splitPath cs of [] \<Rightarrow> [[c]] | x # xs \<Rightarrow> (c # x) # xs))"

text \<open>The elements kept so far are held last first.\<close>

fun cleanElems :: "bool \<Rightarrow> string list \<Rightarrow> string list \<Rightarrow> string list" where
  "cleanElems rooted out [] = rev out"
| "cleanElems rooted out (e # es) =
     (if e = [] \<or> e = ''.'' then cleanElems rooted out es
      else if e = ''..'' then
        (case out of
           [] \<Rightarrow> if rooted then cleanElems rooted out es else cleanElems rooted [e] es
         | x # xs \<Rightarrow>
             if x = ''..'' then cleanElems rooted (e # out) es else cleanElems rooted xs es)
      else cleanElems rooted (e # out) es)"

definition Clean :: "string \<Rightarrow> string" where
  "Clean path =
     (if path = [] then ''.''
      else
        (let rooted = (hd path = CHR ''/'');
             body = Join (cleanElems rooted [] (splitPath path)) ''/''
         in if rooted then CHR ''/'' # body
            else if body = [] then ''.'' else body))"

definition unixJoin :: "string list \<Rightarrow> string" where
  "unixJoin elems =
     (case dropWhile (\<lambda>e. e = []) elems of
        [] \<Rightarrow> []
      | es \<Rightarrow> Clean (Join es ''/''))"

subsection \<open>Collaborators: configuration and problem metadata\<close>

text \<open>\<^verbatim>\<open>config.Get()\<close>: the fields of the configuration that the package reads.\<close>

record CodeConfig =
  Lang :: string
  CodeBeginMark :: string
  CodeEndMark :: string
  FilenameTemplate :: string

record Config =
  Author :: string
  Code :: CodeConfig
  ProjectRoot :: string

text \<open>
  The configuration singleton, the viper settings read by key, and two functions of
  Go's library that the package calls and that are taken as they are:
  \<open>unicode_ToLower\<close> is \<^verbatim>\<open>strings.Map(unicode.ToLower, s)\<close>, the lowering by the
  Unicode tables that \<^verbatim>\<open>strings.ToLower\<close> applies to a string with a byte beyond
  ASCII; \<open>filepath_Join\<close> is \<^verbatim>\<open>filepath.Join\<close> of the platform.
\<close>

record Env =
  cfg :: Config
  viper_GetString :: "string \<Rightarrow> string"
  viper_GetBool :: "string \<Rightarrow> bool"
  unicode_ToLower :: "string \<Rightarrow> string"
  filepath_Join :: "string list \<Rightarrow> string"

text \<open>
  \<^verbatim>\<open>strings.ToLower\<close>: a string of ASCII bytes is lowered byte by byte, any other
  string by the Unicode tables.
\<close>

definition ToLower :: "Env \<Rightarrow> string \<Rightarrow> string" where
  "ToLower env s = (if isASCII s then map toLower_char s else unicode_ToLower env s)"


text \<open>
  \<^verbatim>\<open>leetcode.QuestionData\<close> is declared outside the package. Its fields and the
  results of its methods are the fields of the record; \<^verbatim>\<open>GetCodeSnippet\<close> takes the
  language slug, \<^verbatim>\<open>GetFormattedFilename\<close> the slug and the file name template.
\<close>

record QuestionData =
  TitleSlug :: string
  QuestionFrontendId :: string
  Difficulty :: string
  Url :: string
  IsContest :: bool
  ContestUrl :: string
  GetTitle :: string
  GetFormattedContent :: string
  GetCodeSnippet :: "string \<Rightarrow> string"
  GetFormattedFilename :: "string \<Rightarrow> string \<Rightarrow> error + string"

subsection \<open>Generators and their outputs\<close>

type_synonym fsys = "string \<rightharpoonup> string"

text \<open>
  The interface \<^verbatim>\<open>Testable\<close>. \<^verbatim>\<open>CheckLibrary\<close> reads the file system,
  \<^verbatim>\<open>GenerateLibrary\<close> changes it and may fail (also part way).
\<close>

record Testable =
  CheckLibrary :: "fsys \<Rightarrow> bool"
  GenerateLibrary :: "fsys \<Rightarrow> error option \<times> fsys"
  RunTest :: "QuestionData \<Rightarrow> error option"

text \<open>
  The interface \<^verbatim>\<open>Generator\<close> and the struct \<^verbatim>\<open>FileOutput\<close>, which refers back to
  its generator. A generator's \<^verbatim>\<open>Generate\<close> reads the configuration, the formatted
  reading of the clock and the question. \<^verbatim>\<open>AsTestable\<close> is the outcome of the type
  assertion \<^verbatim>\<open>gen.(Testable)\<close>.
\<close>

datatype Generator =
  MkGenerator
    (Name: string)
    (ShortName: string)
    (Slug: string)
    (GenerateImpl: "Env \<Rightarrow> string \<Rightarrow> QuestionData \<Rightarrow> error + FileOutput list")
    (AsTestable: "Testable option")
and FileOutput =
  FileOutput
    (Path: string)
    (Content: string)
    (Created: bool)
    (Generator: "Generator option")

record baseLang =
  name :: string
  slug :: string
  shortName :: string
  extension :: string
  lineComment :: string
  blockCommentStart :: string
  blockCommentEnd :: string

subsection \<open>Template composition (\<^verbatim>\<open>baseLang\<close>)\<close>

text \<open>
  \<^verbatim>\<open>generateComments\<close>, lines 63 to 80. The argument \<open>now\<close> is
  \<^verbatim>\<open>time.Now().Format("2006/01/02 15:04")\<close>.
\<close>

definition generateComments :: "baseLang \<Rightarrow> Env \<Rightarrow> string \<Rightarrow> QuestionData \<Rightarrow> string" where
  "generateComments l env now q =
     (let content = [lineComment l @ '' Created by '' @ Author (cfg env) @ '' at '' @ now];
          content = content @ [lineComment l @ '' '' @ Url q];
          content = (if IsContest q then content @ [lineComment l @ '' '' @ ContestUrl q]
                     else content);
          content = content @ [''''];
          content = content @ [blockCommentStart l];
          content = content @ [QuestionFrontendId q @ ''.'' @ GetTitle q @ '' ('' @ Difficulty q @ '')''];
          content = content @ [''''];
          content = content @ [GetFormattedContent q];
          content = content @ [blockCommentEnd l];
          content = content @ ['''']
      in Join content nl)"

type_synonym Modifier = "string \<Rightarrow> QuestionData \<Rightarrow> string"

text \<open>The loop of \<^verbatim>\<open>generateCode\<close> over the modifiers, in their order.\<close>

fun applyModifiers :: "string \<Rightarrow> QuestionData \<Rightarrow> Modifier list \<Rightarrow> string" where
  "applyModifiers code q [] = code"
| "applyModifiers code q (m # ms) = applyModifiers (m code q) q ms"

definition generateCode :: "baseLang \<Rightarrow> QuestionData \<Rightarrow> Modifier list \<Rightarrow> string" where
  "generateCode l q modifiers = applyModifiers (GetCodeSnippet q (slug l)) q modifiers"

definition addCodeMark :: "Env \<Rightarrow> string \<Rightarrow> Modifier" where
  "addCodeMark env commentMark =
     (\<lambda>s q. commentMark @ '' '' @ CodeBeginMark (Code (cfg env)) @ nl @ nl @ s @ nl @ nl
              @ commentMark @ '' '' @ CodeEndMark (Code (cfg env)))"

definition removeComments :: Modifier where
  "removeComments code q = code"

definition prepend :: "string \<Rightarrow> Modifier" where
  "prepend s = (\<lambda>code q. s @ code)"

text \<open>\<^verbatim>\<open>getFilenameTemplate\<close>; the second argument is \<^verbatim>\<open>gen.Slug()\<close>.\<close>

definition getFilenameTemplate :: "Env \<Rightarrow> string \<Rightarrow> string" where
  "getFilenameTemplate env genSlug =
     (let res = FilenameTemplate (Code (cfg env)) in
      if res \<noteq> [] then res
      else viper_GetString env (''code.'' @ genSlug @ ''.filename_template''))"

text \<open>
  \<^verbatim>\<open>baseLang.Generate\<close>, lines 125 to 141. The fields \<^verbatim>\<open>Created\<close> and
  \<^verbatim>\<open>Generator\<close> of the output keep their zero values.
\<close>

definition baseLang_Generate ::
    "baseLang \<Rightarrow> Env \<Rightarrow> string \<Rightarrow> QuestionData \<Rightarrow> error + FileOutput list" where
  "baseLang_Generate l env now q =
     (let comment = generateComments l env now q;
          code = generateCode l q [addCodeMark env (lineComment l)];
          content = comment @ nl @ code @ nl;
          filenameTmpl = getFilenameTemplate env (slug l)
      in case GetFormattedFilename q (slug l) filenameTmpl of
           Inl err \<Rightarrow> Inl err
         | Inr baseFilename \<Rightarrow>
             Inr [FileOutput (baseFilename @ ''.'' @ extension l) content False None])"

text \<open>A \<^verbatim>\<open>baseLang\<close> value as a \<^verbatim>\<open>Generator\<close>; it does not implement \<^verbatim>\<open>Testable\<close>.\<close>

definition baseLang_Generator :: "baseLang \<Rightarrow> Generator" where
  "baseLang_Generator l =
     MkGenerator (name l) (shortName l) (slug l) (baseLang_Generate l) None"

subsection \<open>Generator resolution\<close>

text \<open>
  The loop of \<^verbatim>\<open>GetGenerator\<close> over \<^verbatim>\<open>SupportedLangs\<close>. The list is declared in
  another file of the package and is an argument here; \<open>None\<close> is Go's \<^verbatim>\<open>nil\<close>.
\<close>

fun findGenerator :: "Generator list \<Rightarrow> string \<Rightarrow> Generator option" where
  "findGenerator [] gen = None"
| "findGenerator (l # ls) gen =
     (if HasPrefix (ShortName l) gen \<or> HasPrefix (Slug l) gen then Some l
      else findGenerator ls gen)"

definition GetGenerator :: "Env \<Rightarrow> Generator list \<Rightarrow> string \<Rightarrow> Generator option" where
  "GetGenerator env SupportedLangs gen = findGenerator SupportedLangs (ToLower env gen)"

subsection \<open>The world that dispatch acts on\<close>

record LastGeneratedQuestion =
  Slug_lg :: string
  FrontendID :: string
  Gen :: string

record State =
  LastGenerated :: LastGeneratedQuestion

datatype LogEntry =
  LogError string string error
| LogInfo string string

text \<open>
  The calls that dispatch makes, recorded in the order in which it makes them; a call of
  \<^verbatim>\<open>tryWrite\<close> with its path and with what it returned.
\<close>

datatype Call =
  CallCheckLibrary
| CallGenerateLibrary
| CallGenerate
| CallTryWrite string "error + bool"

text \<open>
  \<open>files\<close> is the disk; \<open>create_error\<close> and \<open>write_error\<close> give, for a path, the
  failure of \<^verbatim>\<open>utils.CreateIfNotExists\<close> and of \<^verbatim>\<open>os.WriteFile\<close> there, if any;
  \<open>answers\<close> are the outcomes of the coming calls of \<^verbatim>\<open>survey.AskOne\<close>, in order;
  \<open>saved_state\<close> is the state file; \<open>clock\<close> is the formatted reading of the wall clock.
\<close>

record World =
  files :: fsys
  create_error :: "string \<Rightarrow> error option"
  write_error :: "string \<Rightarrow> error option"
  answers :: "(error + bool) list"
  saved_state :: State
  log :: "LogEntry list"
  calls :: "Call list"
  clock :: string

definition IsExist :: "World \<Rightarrow> string \<Rightarrow> bool" where
  "IsExist w file = (files w file \<noteq> None)"

text \<open>
  \<^verbatim>\<open>survey.AskOne\<close> with a confirmation prompt: the next outcome, an error or the
  answer of the user. With nothing left to read the prompt fails.
\<close>

definition AskOne :: "string \<Rightarrow> World \<Rightarrow> (error + bool) \<times> World" where
  "AskOne message w =
     (case answers w of
        [] \<Rightarrow> (Inl (Error ''EOF''), w)
      | a # rest \<Rightarrow> (a, w\<lparr>answers := rest\<rparr>))"

text \<open>\<^verbatim>\<open>utils.CreateIfNotExists(file, false)\<close>: an empty file where there was none.\<close>

definition CreateIfNotExists :: "string \<Rightarrow> World \<Rightarrow> error option \<times> World" where
  "CreateIfNotExists file w =
     (case create_error w file of
        Some err \<Rightarrow> (Some err, w)
      | None \<Rightarrow>
          (None, if IsExist w file then w else w\<lparr>files := (files w)(file \<mapsto> [])\<rparr>))"

definition WriteFile :: "string \<Rightarrow> string \<Rightarrow> World \<Rightarrow> error option \<times> World" where
  "WriteFile file content w =
     (case write_error w file of
        Some err \<Rightarrow> (Some err, w)
      | None \<Rightarrow> (None, w\<lparr>files := (files w)(file \<mapsto> content)\<rparr>))"

definition LoadState :: "World \<Rightarrow> State" where
  "LoadState w = saved_state w"

definition SaveState :: "State \<Rightarrow> World \<Rightarrow> World" where
  "SaveState s w = w\<lparr>saved_state := s\<rparr>"

subsection \<open>The file writer\<close>

text \<open>
  \<^verbatim>\<open>tryWrite\<close>, lines 212 to 237. Go's pair \<^verbatim>\<open>(bool, error)\<close> is a sum: the
  function returns \<^verbatim>\<open>false\<close> with every error.
\<close>

definition tryWrite :: "Env \<Rightarrow> string \<Rightarrow> string \<Rightarrow> World \<Rightarrow> (error + bool) \<times> World" where
  "tryWrite env file content w =
     (case (if IsExist w file \<and> \<not> viper_GetBool env ''yes''
            then AskOne (''File \"'' @ file @ ''\" already exists, overwrite?'') w
            else (Inr True, w)) of
        (Inl err, w1) \<Rightarrow> (Inl err, w1)
      | (Inr write, w1) \<Rightarrow>
          if \<not> write then (Inr False, w1)
          else
            (case CreateIfNotExists file w1 of
               (Some err, w2) \<Rightarrow> (Inl err, w2)
             | (None, w2) \<Rightarrow>
                 (case WriteFile file content w2 of
                    (Some err, w3) \<Rightarrow> (Inl err, w3)
                  | (None, w3) \<Rightarrow>
                      (Inr True, w3\<lparr>log := log w3 @ [LogInfo ''generated'' file]\<rparr>))))"

text \<open>
  Lines 213 to 225 of \<^verbatim>\<open>tryWrite\<close>: the function goes on to the file system when
  the file is new, when "assume yes" is set, or when the prompt is answered yes.
\<close>

definition confirmsWrite :: "Env \<Rightarrow> string \<Rightarrow> World \<Rightarrow> bool" where
  "confirmsWrite env file w =
     (if IsExist w file \<and> \<not> viper_GetBool env ''yes''
      then (case answers w of [] \<Rightarrow> False | a # rest \<Rightarrow> a = Inr True)
      else True)"

text \<open>
  Lines 227 to 234 of \<^verbatim>\<open>tryWrite\<close>: the error with which writing at a path fails,
  that of \<^verbatim>\<open>utils.CreateIfNotExists\<close> or else that of \<^verbatim>\<open>os.WriteFile\<close>.
\<close>

definition diskError :: "World \<Rightarrow> string \<Rightarrow> error option" where
  "diskError w file =
     (case create_error w file of
        Some err \<Rightarrow> Some err
      | None \<Rightarrow> write_error w file)"

subsection \<open>Dispatch\<close>

text \<open>
  The loop of lines 189 to 199 over the outputs, first to last. The element
  \<^verbatim>\<open>files[i]\<close> gets its path and its generator before \<^verbatim>\<open>tryWrite\<close> is
  called, and its \<^verbatim>\<open>Created\<close> flag only when \<^verbatim>\<open>tryWrite\<close> returns no error.
\<close>

fun writeFiles ::
    "Env \<Rightarrow> Generator \<Rightarrow> string \<Rightarrow> FileOutput list \<Rightarrow> World \<Rightarrow> FileOutput list \<times> World" where
  "writeFiles env gen dir [] w = ([], w)"
| "writeFiles env gen dir (f # fs) w =
     (let path = filepath_Join env [ProjectRoot (cfg env), dir, Path f]
      in case tryWrite env path (Content f) w of
           (Inl err, w1) \<Rightarrow>
             (case writeFiles env gen dir fs
                     (w1\<lparr>log := log w1 @ [LogError ''failed to write file'' path err],
                         calls := calls w1 @ [CallTryWrite path (Inl err)]\<rparr>) of
                (rest, w2) \<Rightarrow> (FileOutput path (Content f) (Created f) (Some gen) # rest, w2))
         | (Inr written, w1) \<Rightarrow>
             (case writeFiles env gen dir fs
                     (w1\<lparr>calls := calls w1 @ [CallTryWrite path (Inr written)]\<rparr>) of
                (rest, w2) \<Rightarrow> (FileOutput path (Content f) written (Some gen) # rest, w2)))"

text \<open>
  Lines 172 to 177: a generator that is \<^verbatim>\<open>Testable\<close> and whose library is not
  installed has its library generated. The result is the error of
  \<^verbatim>\<open>GenerateLibrary\<close>, if any.
\<close>

definition bootstrapLibrary :: "Generator \<Rightarrow> World \<Rightarrow> error option \<times> World" where
  "bootstrapLibrary gen w =
     (case AsTestable gen of
        None \<Rightarrow> (None, w)
      | Some t \<Rightarrow>
          if CheckLibrary t (files w)
          then (None, w\<lparr>calls := calls w @ [CallCheckLibrary]\<rparr>)
          else
            (case GenerateLibrary t (files w) of
               (err, fs) \<Rightarrow>
                 (err, w\<lparr>files := fs,
                         calls := calls w @ [CallCheckLibrary, CallGenerateLibrary]\<rparr>)))"

text \<open>Lines 184 to 187: the output directory of the configured language.\<close>

definition outDir :: "Env \<Rightarrow> string" where
  "outDir env =
     (let dir = viper_GetString env (''code.'' @ Lang (Code (cfg env)) @ ''.out_dir'')
      in if dir = [] then Lang (Code (cfg env)) else dir)"

text \<open>Lines 201 to 207: the record of the last generated question replaces the stored one.\<close>

definition saveLastGenerated :: "QuestionData \<Rightarrow> Generator \<Rightarrow> World \<Rightarrow> World" where
  "saveLastGenerated q gen w =
     (let state = LoadState w;
          state = state\<lparr>LastGenerated :=
                    \<lparr>Slug_lg = TitleSlug q,
                     FrontendID = QuestionFrontendId q,
                     Gen = Slug gen\<rparr>\<rparr>
      in SaveState state w)"

text \<open>The dispatching \<^verbatim>\<open>Generate\<close>, lines 160 to 210.\<close>

definition Generate ::
    "Generator list \<Rightarrow> Env \<Rightarrow> QuestionData \<Rightarrow> World \<Rightarrow> (error + FileOutput list) \<times> World" where
  "Generate SupportedLangs env q w =
     (case GetGenerator env SupportedLangs (Lang (Code (cfg env))) of
        None \<Rightarrow> (Inl (LanguageUnsupported (Lang (Code (cfg env)))), w)
      | Some gen \<Rightarrow>
          if GetCodeSnippet q (Slug gen) = []
          then (Inl (SnippetMissing (Lang (Code (cfg env))) (TitleSlug q)), w)
          else
            (case bootstrapLibrary gen w of
               (Some err, w1) \<Rightarrow> (Inl err, w1)
             | (None, w1) \<Rightarrow>
                 (case GenerateImpl gen env (clock w1) q of
                    Inl err \<Rightarrow> (Inl err, w1\<lparr>calls := calls w1 @ [CallGenerate]\<rparr>)
                  | Inr files0 \<Rightarrow>
                      (case writeFiles env gen (outDir env) files0
                              (w1\<lparr>calls := calls w1 @ [CallGenerate]\<rparr>) of
                         (files1, w2) \<Rightarrow> (Inr files1, saveLastGenerated q gen w2)))))"

subsection \<open>Concrete inputs\<close>

text \<open>
  Two languages in the shape of \<^verbatim>\<open>baseLang\<close>, a registry, a configuration, a question
  and worlds, on which the theorems below are evaluated.
\<close>

definition golang :: baseLang where
  "golang = \<lparr>name = ''Go'', slug = ''golang'', shortName = ''go'', extension = ''go'',
     lineComment = ''//'', blockCommentStart = ''/**'', blockCommentEnd = ''*/''\<rparr>"

definition python3 :: baseLang where
  "python3 = \<lparr>name = ''Python'', slug = ''python3'', shortName = ''py'', extension = ''py'',
     lineComment = ''#'', blockCommentStart = ''<doc>'', blockCommentEnd = ''</doc>''\<rparr>"

definition exampleLangs :: "Generator list" where
  "exampleLangs = [baseLang_Generator golang, baseLang_Generator python3]"

text \<open>A library that is installed when its file is on the disk.\<close>

definition exampleLibrary :: Testable where
  "exampleLibrary = \<lparr>
     CheckLibrary = (\<lambda>fs. fs ''/p/go/testutils.go'' \<noteq> None),
     GenerateLibrary = (\<lambda>fs. (None, fs(''/p/go/testutils.go'' \<mapsto> ''package testutils''))),
     RunTest = (\<lambda>q. None)\<rparr>"

text \<open>A library whose installation fails.\<close>

definition brokenLibrary :: Testable where
  "brokenLibrary = \<lparr>
     CheckLibrary = (\<lambda>fs. fs ''/p/go/testutils.go'' \<noteq> None),
     GenerateLibrary = (\<lambda>fs. (Some (Error ''permission denied''), fs)),
     RunTest = (\<lambda>q. None)\<rparr>"

definition testableGo :: "Testable \<Rightarrow> Generator" where
  "testableGo t = MkGenerator ''Go'' ''go'' ''golang'' (baseLang_Generate golang) (Some t)"

text \<open>
  A configuration for the given language identifier, with "assume yes" off. Paths are
  joined as on Unix; the identifiers used below are ASCII, so the lowering of strings
  beyond ASCII is not read.
\<close>

definition exampleEnv :: "string \<Rightarrow> Env" where
  "exampleEnv lang = \<lparr>
     cfg = \<lparr>Author = ''alice'',
            Code = \<lparr>Lang = lang, CodeBeginMark = ''@lc code=begin'',
                     CodeEndMark = ''@lc code=end'', FilenameTemplate = []\<rparr>,
            ProjectRoot = ''/p''\<rparr>,
     viper_GetString = (\<lambda>key. []),
     viper_GetBool = (\<lambda>key. False),
     unicode_ToLower = (\<lambda>s. s),
     filepath_Join = unixJoin\<rparr>"

definition exampleQuestion :: QuestionData where
  "exampleQuestion = \<lparr>
     TitleSlug = ''two-sum'',
     QuestionFrontendId = ''1'',
     Difficulty = ''Easy'',
     Url = ''https://leetcode.com/problems/two-sum/'',
     IsContest = False,
     ContestUrl = [],
     GetTitle = ''Two Sum'',
     GetFormattedContent = ''Given an array of integers.'',
     GetCodeSnippet = (\<lambda>s. if s = ''golang'' then ''func twoSum() {}'' else []),
     GetFormattedFilename = (\<lambda>s t. Inr ''0001.two-sum'')\<rparr>"

text \<open>
  A world with the given disk and the given outcomes of the coming prompts, where no
  file system operation fails.
\<close>

definition exampleWorld :: "fsys \<Rightarrow> (error + bool) list \<Rightarrow> World" where
  "exampleWorld fs as = \<lparr>
     files = fs,
     create_error = (\<lambda>p. None),
     write_error = (\<lambda>p. None),
     answers = as,
     saved_state = \<lparr>LastGenerated =
       \<lparr>Slug_lg = ''add-two-numbers'', FrontendID = ''2'', Gen = ''python3''\<rparr>\<rparr>,
     log = [],
     calls = [],
     clock = ''2024/01/01 10:00''\<rparr>"

text \<open>The same world, where writing the file at the given path fails.\<close>

definition failingWorld :: "string \<Rightarrow> fsys \<Rightarrow> (error + bool) list \<Rightarrow> World" where
  "failingWorld path fs as =
     (exampleWorld fs as)\<lparr>write_error :=
        (\<lambda>p. if p = path then Some (Error ''permission denied'') else None)\<rparr>"

text \<open>A generator with two outputs, a solution file and its test file.\<close>

definition twoFiles :: Generator where
  "twoFiles = MkGenerator ''Go'' ''go'' ''golang''
     (\<lambda>env now q. Inr [FileOutput ''a.go'' ''A'' False None,
                         FileOutput ''a_test.go'' ''B'' False None])
     None"

section \<open>Properties\<close>

subsection \<open>Auxiliary facts\<close>

lemma findGenerator_find:
  "findGenerator ls s = find (\<lambda>l. prefix s (ShortName l) \<or> prefix s (Slug l)) ls"
  by (induction ls) (simp_all add: HasPrefix_def)

lemma toLower_char_idem: "toLower_char (toLower_char c) = toLower_char c"
proof (cases "65 \<le> (of_char c :: nat) \<and> (of_char c :: nat) \<le> 90")
  case True
  then have "(of_char (char_of (of_char c + 32 :: nat)) :: nat) = of_char c + 32"
    by simp
  with True show ?thesis
    by (simp add: toLower_char_def Let_def)
next
  case False
  then show ?thesis
    by (auto simp: toLower_char_def Let_def)
qed

lemma toLower_char_ascii: "(of_char c :: nat) < 128 \<Longrightarrow> (of_char (toLower_char c) :: nat) < 128"
  by (auto simp: toLower_char_def Let_def)

lemma isASCII_lowered: "isASCII s \<Longrightarrow> isASCII (map toLower_char s)"
  by (induction s) (simp_all add: isASCII_def toLower_char_ascii)

lemma ToLower_idem: "isASCII s \<Longrightarrow> ToLower env (ToLower env s) = ToLower env s"
  by (simp add: ToLower_def isASCII_lowered toLower_char_idem)

lemma ToLower_Nil: "ToLower env [] = []"
  by (simp add: ToLower_def isASCII_def)

lemma isASCII_examples:
  "isASCII ''py''" "isASCII ''PY''" "isASCII ''go''" "isASCII ''rust''" "isASCII ''G''"
  by code_simp+

lemma lowered_examples:
  "map toLower_char ''py'' = ''py''" "map toLower_char ''PY'' = ''py''"
  "map toLower_char ''go'' = ''go''" "map toLower_char ''rust'' = ''rust''"
  "map toLower_char ''G'' = ''g''"
  by code_simp+

lemma ToLower_examples:
  "ToLower env ''py'' = ''py''" "ToLower env ''PY'' = ''py''" "ToLower env ''go'' = ''go''"
  "ToLower env ''rust'' = ''rust''" "ToLower env ''G'' = ''g''"
  by (simp_all only: ToLower_def isASCII_examples lowered_examples if_True)

lemma GetGenerator_examples:
  "GetGenerator env exampleLangs ''py'' = Some (baseLang_Generator python3)"
  "GetGenerator env exampleLangs ''PY'' = Some (baseLang_Generator python3)"
  "GetGenerator env exampleLangs ''go'' = Some (baseLang_Generator golang)"
  "GetGenerator env exampleLangs ''G'' = Some (baseLang_Generator golang)"
  "GetGenerator env exampleLangs ''rust'' = None"
  "GetGenerator env exampleLangs [] = Some (baseLang_Generator golang)"
  by (simp_all add: GetGenerator_def ToLower_examples ToLower_Nil exampleLangs_def
        baseLang_Generator_def HasPrefix_def golang_def python3_def)

lemma unixJoin_examples:
  "unixJoin [''/p'', ''go'', ''a.go''] = ''/p/go/a.go''"
  "unixJoin [''/p'', ''go'', ''a_test.go''] = ''/p/go/a_test.go''"
  "unixJoin [''/p'', ''go'', ''0001.two-sum.go''] = ''/p/go/0001.two-sum.go''"
  "unixJoin [''/p'', [], ''0001.two-sum.go''] = ''/p/0001.two-sum.go''"
  "unixJoin [''/p'', ''./go/'', ''../a.go''] = ''/p/a.go''"
  by code_simp+

subsection \<open>Generator resolution\<close>

text \<open>
  Claim C5. Resolution lowers the identifier with \<^verbatim>\<open>strings.ToLower\<close> and returns
  the first generator, in the order of the registry, whose short name or slug has the
  lowered identifier as a prefix: the generator at the least index that matches. It
  returns nothing exactly when no registered generator matches. Two identifiers with
  the same lowering (identifiers that differ only in case) resolve alike, an ASCII
  identifier resolves like its lowering, and over a registry whose names are in lower
  case the match is the prefix test with both sides folded. When nothing is found,
  dispatch leaves the world as it is and fails with the error that names the configured
  identifier. The identifier is any string; beyond ASCII the lowering is that of
  Go's Unicode tables.
\<close>

theorem GetGenerator_first_prefix_match:
  "(GetGenerator env langs ident = Some g \<longleftrightarrow>
      (\<exists>i<length langs. langs ! i = g
         \<and> (prefix (ToLower env ident) (ShortName g) \<or> prefix (ToLower env ident) (Slug g))
         \<and> (\<forall>j<i. \<not> (prefix (ToLower env ident) (ShortName (langs ! j))
                      \<or> prefix (ToLower env ident) (Slug (langs ! j))))))
   \<and> (GetGenerator env langs ident = None \<longleftrightarrow>
        (\<forall>l\<in>set langs. \<not> (prefix (ToLower env ident) (ShortName l)
                            \<or> prefix (ToLower env ident) (Slug l))))
   \<and> (ToLower env ident' = ToLower env ident \<longrightarrow>
        GetGenerator env langs ident' = GetGenerator env langs ident)
   \<and> (isASCII ident \<longrightarrow>
        ToLower env ident = map toLower_char ident
        \<and> GetGenerator env langs (ToLower env ident) = GetGenerator env langs ident)
   \<and> ((\<forall>l\<in>set langs. ToLower env (ShortName l) = ShortName l \<and> ToLower env (Slug l) = Slug l) \<longrightarrow>
        GetGenerator env langs ident =
          find (\<lambda>l. prefix (ToLower env ident) (ToLower env (ShortName l))
                   \<or> prefix (ToLower env ident) (ToLower env (Slug l))) langs)
   \<and> (GetGenerator env langs (Lang (Code (cfg env))) = None \<longrightarrow>
        Generate langs env q w = (Inl (LanguageUnsupported (Lang (Code (cfg env)))), w))"
proof -
  let ?M = "\<lambda>l. prefix (ToLower env ident) (ShortName l) \<or> prefix (ToLower env ident) (Slug l)"
  have eq: "GetGenerator env langs ident = find ?M langs"
    by (simp add: GetGenerator_def findGenerator_find)
  have a: "GetGenerator env langs ident = Some g \<longleftrightarrow>
      (\<exists>i<length langs. langs ! i = g \<and> ?M g \<and> (\<forall>j<i. \<not> ?M (langs ! j)))"
    unfolding eq find_Some_iff by blast
  have b: "GetGenerator env langs ident = None \<longleftrightarrow> (\<forall>l\<in>set langs. \<not> ?M l)"
    unfolding eq find_None_iff by blast
  have c: "ToLower env ident' = ToLower env ident \<longrightarrow>
      GetGenerator env langs ident' = GetGenerator env langs ident"
    by (simp add: GetGenerator_def)
  have d: "isASCII ident \<longrightarrow>
        ToLower env ident = map toLower_char ident
        \<and> GetGenerator env langs (ToLower env ident) = GetGenerator env langs ident"
    by (simp add: GetGenerator_def ToLower_idem) (simp add: ToLower_def)
  have e: "(\<forall>l\<in>set langs. ToLower env (ShortName l) = ShortName l \<and> ToLower env (Slug l) = Slug l) \<longrightarrow>
        GetGenerator env langs ident =
          find (\<lambda>l. prefix (ToLower env ident) (ToLower env (ShortName l))
                   \<or> prefix (ToLower env ident) (ToLower env (Slug l))) langs"
    unfolding eq by (auto intro!: find_cong)
  have f: "GetGenerator env langs (Lang (Code (cfg env))) = None \<longrightarrow>
        Generate langs env q w = (Inl (LanguageUnsupported (Lang (Code (cfg env)))), w)"
    by (simp add: Generate_def)
  from a b c d e f show ?thesis by blast
qed

theorem GetGenerator_first_prefix_match_witness:
  "GetGenerator (exampleEnv ''rust'') exampleLangs ''PY'' = Some (baseLang_Generator python3)
   \<and> GetGenerator (exampleEnv ''rust'') exampleLangs ''py''
       = GetGenerator (exampleEnv ''rust'') exampleLangs ''PY''
   \<and> GetGenerator (exampleEnv ''rust'') exampleLangs ''rust'' = None
   \<and> Generate exampleLangs (exampleEnv ''rust'') exampleQuestion (exampleWorld Map.empty [])
       = (Inl (Error ''language rust is not supported yet, welcome to send a PR''),
          exampleWorld Map.empty [])"
proof -
  let ?env = "exampleEnv ''rust''"
  have low: "ToLower ?env ''py'' = ToLower ?env ''PY''"
    by (simp add: ToLower_examples)
  have none: "GetGenerator ?env exampleLangs (Lang (Code (cfg ?env))) = None"
    by (simp add: exampleEnv_def GetGenerator_examples)
  have lang: "Lang (Code (cfg ?env)) = ''rust''"
    by (simp add: exampleEnv_def)
  note T = GetGenerator_first_prefix_match [of ?env exampleLangs "''PY''"
      "baseLang_Generator python3" "''py''" exampleQuestion "exampleWorld Map.empty []"]
  from T low have 1: "GetGenerator ?env exampleLangs ''py'' = GetGenerator ?env exampleLangs ''PY''"
    by blast
  from T none have 2:
    "Generate exampleLangs ?env exampleQuestion (exampleWorld Map.empty [])
       = (Inl (LanguageUnsupported (Lang (Code (cfg ?env)))), exampleWorld Map.empty [])"
    by blast
  from 1 2 show ?thesis
    by (simp add: GetGenerator_examples LanguageUnsupported_def lang)
qed

subsection \<open>Dispatch without a starter snippet\<close>

text \<open>
  Claim C1. When the question has no starter snippet for the slug of the resolved
  generator, dispatch returns the error of the missing snippet and the world it
  returns is the world it was given: no file is written, the persisted state is the
  same, and neither the generator nor the file writer has been called.
\<close>

theorem Generate_snippet_missing:
  "GetGenerator env langs (Lang (Code (cfg env))) = Some gen \<Longrightarrow>
   GetCodeSnippet q (Slug gen) = [] \<Longrightarrow>
     Generate langs env q w = (Inl (SnippetMissing (Lang (Code (cfg env))) (TitleSlug q)), w)
     \<and> files (snd (Generate langs env q w)) = files w
     \<and> saved_state (snd (Generate langs env q w)) = saved_state w
     \<and> calls (snd (Generate langs env q w)) = calls w"
  by (simp add: Generate_def)

theorem Generate_snippet_missing_witness:
  "GetGenerator (exampleEnv ''py'') exampleLangs (Lang (Code (cfg (exampleEnv ''py''))))
     = Some (baseLang_Generator python3)
   \<and> GetCodeSnippet exampleQuestion (Slug (baseLang_Generator python3)) = []
   \<and> Generate exampleLangs (exampleEnv ''py'') exampleQuestion (exampleWorld Map.empty [])
       = (Inl (Error ''no py code snippet found for two-sum''), exampleWorld Map.empty [])"
proof -
  have h1: "GetGenerator (exampleEnv ''py'') exampleLangs (Lang (Code (cfg (exampleEnv ''py''))))
              = Some (baseLang_Generator python3)"
    by (simp add: exampleEnv_def GetGenerator_examples)
  have h2: "GetCodeSnippet exampleQuestion (Slug (baseLang_Generator python3)) = []"
    by (simp add: exampleQuestion_def baseLang_Generator_def python3_def)
  from Generate_snippet_missing [OF h1 h2, of "exampleWorld Map.empty []"] h1 h2
  show ?thesis
    by (simp add: SnippetMissing_def exampleEnv_def exampleQuestion_def)
qed

subsection \<open>The file writer\<close>

text \<open>
  Claim C7. With "assume yes" off, the target file on the disk and the user answering
  no, the file writer returns \<^verbatim>\<open>false\<close> and no error; the answer is consumed and
  nothing else changes, so the disk is the same.
\<close>

theorem tryWrite_declined:
  "\<not> viper_GetBool env ''yes'' \<Longrightarrow> IsExist w file \<Longrightarrow> answers w = Inr False # rest \<Longrightarrow>
     tryWrite env file content w = (Inr False, w\<lparr>answers := rest\<rparr>)
     \<and> files (snd (tryWrite env file content w)) = files w"
  by (simp add: tryWrite_def AskOne_def)

theorem tryWrite_declined_witness:
  "tryWrite (exampleEnv ''go'') ''/p/go/a.go'' ''new''
      (exampleWorld [''/p/go/a.go'' \<mapsto> ''old''] [Inr False])
     = (Inr False, exampleWorld [''/p/go/a.go'' \<mapsto> ''old''] [])
   \<and> files (snd (tryWrite (exampleEnv ''go'') ''/p/go/a.go'' ''new''
        (exampleWorld [''/p/go/a.go'' \<mapsto> ''old''] [Inr False]))) ''/p/go/a.go'' = Some ''old''"
proof -
  let ?w = "exampleWorld [''/p/go/a.go'' \<mapsto> ''old''] [Inr False]"
  have h1: "\<not> viper_GetBool (exampleEnv ''go'') ''yes''"
    by (simp add: exampleEnv_def)
  have h2: "IsExist ?w ''/p/go/a.go''"
    by (simp add: IsExist_def exampleWorld_def)
  have h3: "answers ?w = Inr False # []"
    by (simp add: exampleWorld_def)
  from tryWrite_declined [OF h1 h2 h3, of "''new''"] show ?thesis
    by (simp add: exampleWorld_def)
qed

subsection \<open>Template composition\<close>

lemma generateComments_timestamp:
  "\<exists>rest. \<forall>now. generateComments l env now q
      = lineComment l @ '' Created by '' @ Author (cfg env) @ '' at '' @ now @ rest"
  by (cases "IsContest q") (auto simp: generateComments_def Let_def)

lemma generateComments_closer:
  "\<exists>h. generateComments l env now q = h @ blockCommentEnd l @ nl"
  by (cases "IsContest q") (auto simp: generateComments_def Let_def)

lemma generateCode_addCodeMark:
  "generateCode l q [addCodeMark env (lineComment l)]
     = lineComment l @ '' '' @ CodeBeginMark (Code (cfg env)) @ nl @ nl
       @ GetCodeSnippet q (slug l) @ nl @ nl
       @ lineComment l @ '' '' @ CodeEndMark (Code (cfg env))"
  by (simp add: generateCode_def addCodeMark_def)

lemma baseLang_Generate_Inr:
  "baseLang_Generate l env now q = Inr fs \<Longrightarrow>
     \<exists>b. GetFormattedFilename q (slug l) (getFilenameTemplate env (slug l)) = Inr b
       \<and> fs = [FileOutput (b @ ''.'' @ extension l)
                 (generateComments l env now q @ nl
                    @ generateCode l q [addCodeMark env (lineComment l)] @ nl) False None]"
  by (auto simp: baseLang_Generate_def Let_def split: sum.splits)

lemma ex_Generate:
  "baseLang_Generate golang env now exampleQuestion
     = Inr [FileOutput ''0001.two-sum.go''
         (generateComments golang env now exampleQuestion @ nl
            @ generateCode golang exampleQuestion [addCodeMark env ''//''] @ nl) False None]"
  by (simp add: baseLang_Generate_def exampleQuestion_def golang_def Let_def)

text \<open>
  Claim C6. Every output of \<^verbatim>\<open>baseLang.Generate\<close> has the content header, newline,
  code, newline. The header ends with the closer of the block comment and a newline,
  the code starts with the line of the begin marker and ends with the line of the end
  marker: in the file there is exactly one empty line between the closer and the begin
  marker, and exactly one newline is put after the end marker.
\<close>

theorem baseLang_Generate_content:
  assumes "baseLang_Generate l env now q = Inr fs" and "f \<in> set fs"
  shows "Content f = generateComments l env now q @ nl
                       @ generateCode l q [addCodeMark env (lineComment l)] @ nl
    \<and> (\<exists>h. generateComments l env now q = h @ blockCommentEnd l @ nl)
    \<and> generateCode l q [addCodeMark env (lineComment l)]
        = lineComment l @ '' '' @ CodeBeginMark (Code (cfg env)) @ nl @ nl
          @ GetCodeSnippet q (slug l) @ nl @ nl
          @ lineComment l @ '' '' @ CodeEndMark (Code (cfg env))
    \<and> (\<exists>h. Content f = h @ blockCommentEnd l @ nl @ nl
          @ lineComment l @ '' '' @ CodeBeginMark (Code (cfg env)) @ nl @ nl
          @ GetCodeSnippet q (slug l) @ nl @ nl
          @ lineComment l @ '' '' @ CodeEndMark (Code (cfg env)) @ nl)"
proof -
  from assms baseLang_Generate_Inr [OF assms(1)]
  have c: "Content f = generateComments l env now q @ nl
                       @ generateCode l q [addCodeMark env (lineComment l)] @ nl"
    by auto
  obtain h where h: "generateComments l env now q = h @ blockCommentEnd l @ nl"
    using generateComments_closer by blast
  have "Content f = h @ blockCommentEnd l @ nl @ nl
          @ lineComment l @ '' '' @ CodeBeginMark (Code (cfg env)) @ nl @ nl
          @ GetCodeSnippet q (slug l) @ nl @ nl
          @ lineComment l @ '' '' @ CodeEndMark (Code (cfg env)) @ nl"
    unfolding c h generateCode_addCodeMark by simp
  with c h generateCode_addCodeMark show ?thesis
    by blast
qed

theorem baseLang_Generate_content_witness:
  "baseLang_Generate golang (exampleEnv ''go'') ''2024/01/01 10:00'' exampleQuestion
     = Inr [FileOutput ''0001.two-sum.go''
         (generateComments golang (exampleEnv ''go'') ''2024/01/01 10:00'' exampleQuestion @ nl
            @ generateCode golang exampleQuestion [addCodeMark (exampleEnv ''go'') ''//''] @ nl) False None]
   \<and> generateComments golang (exampleEnv ''go'') ''2024/01/01 10:00'' exampleQuestion @ nl
            @ generateCode golang exampleQuestion [addCodeMark (exampleEnv ''go'') ''//''] @ nl
     = ''// Created by alice at 2024/01/01 10:00'' @ nl
       @ ''// https://leetcode.com/problems/two-sum/'' @ nl
       @ nl
       @ ''/**'' @ nl
       @ ''1.Two Sum (Easy)'' @ nl
       @ nl
       @ ''Given an array of integers.'' @ nl
       @ ''*/'' @ nl
       @ nl
       @ ''// @lc code=begin'' @ nl
       @ nl
       @ ''func twoSum() {}'' @ nl
       @ nl
       @ ''// @lc code=end'' @ nl"
proof -
  let ?f = "FileOutput ''0001.two-sum.go''
         (generateComments golang (exampleEnv ''go'') ''2024/01/01 10:00'' exampleQuestion @ nl
            @ generateCode golang exampleQuestion [addCodeMark (exampleEnv ''go'') ''//''] @ nl) False None"
  have m: "?f \<in> set [?f]"
    by simp
  note T = baseLang_Generate_content [OF ex_Generate m]
  have "generateComments golang (exampleEnv ''go'') ''2024/01/01 10:00'' exampleQuestion
     = ''// Created by alice at 2024/01/01 10:00'' @ nl
       @ ''// https://leetcode.com/problems/two-sum/'' @ nl
       @ nl
       @ ''/**'' @ nl
       @ ''1.Two Sum (Easy)'' @ nl
       @ nl
       @ ''Given an array of integers.'' @ nl
       @ ''*/'' @ nl"
    by (simp add: generateComments_def exampleQuestion_def golang_def exampleEnv_def Let_def)
  moreover from T have "generateCode golang exampleQuestion [addCodeMark (exampleEnv ''go'') ''//'']
     = ''// @lc code=begin'' @ nl @ nl @ ''func twoSum() {}'' @ nl @ nl @ ''// @lc code=end''"
    by (simp add: exampleQuestion_def golang_def exampleEnv_def)
  ultimately show ?thesis
    by (simp add: ex_Generate)
qed

text \<open>
  Claim C2 as stated asks that two calls with the same question and the same
  configuration produce the same bytes. The header carries the time of the call: the
  same generator, configuration and question, read one minute apart, give the same
  path and different contents.
\<close>

theorem baseLang_Generate_not_deterministic:
  "map Path (projr (baseLang_Generate golang (exampleEnv ''go'') ''2024/01/01 10:00'' exampleQuestion))
     = [''0001.two-sum.go'']
   \<and> map Path (projr (baseLang_Generate golang (exampleEnv ''go'') ''2024/01/01 10:01'' exampleQuestion))
     = [''0001.two-sum.go'']
   \<and> map Content (projr (baseLang_Generate golang (exampleEnv ''go'') ''2024/01/01 10:00'' exampleQuestion))
     \<noteq> map Content (projr (baseLang_Generate golang (exampleEnv ''go'') ''2024/01/01 10:01'' exampleQuestion))"
  unfolding ex_Generate
  by (simp add: generateComments_def exampleQuestion_def golang_def exampleEnv_def Let_def)

text \<open>
  Claim C2, amended. For the same generator, configuration and question, two successful
  calls of \<^verbatim>\<open>baseLang.Generate\<close> give the same path, and their contents are
  byte-identical exactly when the two calls read the same formatted time
  (\<^verbatim>\<open>time.Now()\<close> to the minute).
\<close>

theorem baseLang_Generate_clock:
  assumes "baseLang_Generate l env now1 q = Inr [f1]"
      and "baseLang_Generate l env now2 q = Inr [f2]"
  shows "Path f1 = Path f2 \<and> (Content f1 = Content f2 \<longleftrightarrow> now1 = now2)"
proof -
  obtain rest where r: "\<And>now. generateComments l env now q
      = lineComment l @ '' Created by '' @ Author (cfg env) @ '' at '' @ now @ rest"
    using generateComments_timestamp by blast
  from baseLang_Generate_Inr [OF assms(1)] baseLang_Generate_Inr [OF assms(2)]
  show ?thesis
    by (auto simp: r)
qed

theorem baseLang_Generate_clock_witness:
  "baseLang_Generate golang (exampleEnv ''go'') ''2024/01/01 10:00'' exampleQuestion
     = Inr [FileOutput ''0001.two-sum.go''
         (generateComments golang (exampleEnv ''go'') ''2024/01/01 10:00'' exampleQuestion @ nl
            @ generateCode golang exampleQuestion [addCodeMark (exampleEnv ''go'') ''//''] @ nl) False None]
   \<and> generateComments golang (exampleEnv ''go'') ''2024/01/01 10:00'' exampleQuestion
       \<noteq> generateComments golang (exampleEnv ''go'') ''2024/01/01 10:01'' exampleQuestion"
proof -
  note T = baseLang_Generate_clock
      [OF ex_Generate [of "exampleEnv ''go''" "''2024/01/01 10:00''"]
          ex_Generate [of "exampleEnv ''go''" "''2024/01/01 10:01''"]]
  from T show ?thesis
    by (simp add: ex_Generate)
qed

subsection \<open>The write loop\<close>

lemma tryWrite_frame:
  assumes "tryWrite env file content w = (r, w')"
  shows "calls w' = calls w" and "saved_state w' = saved_state w" and "clock w' = clock w"
    and "set (log w) \<subseteq> set (log w')"
    and "create_error w' = create_error w" and "write_error w' = write_error w"
  using assms
  by (auto simp: tryWrite_def AskOne_def CreateIfNotExists_def WriteFile_def IsExist_def
           split: if_splits list.splits sum.splits option.splits prod.splits)

lemma tryWrite_disk_failure:
  assumes "confirmsWrite env file w" and "diskError w file = Some err"
  shows "fst (tryWrite env file content w) = Inl err"
proof (cases "IsExist w file \<and> \<not> viper_GetBool env ''yes''")
  case True
  with assms(1) obtain rest where a: "answers w = Inr True # rest"
    by (auto simp: confirmsWrite_def split: list.splits)
  from assms(2) True a show ?thesis
    by (auto simp: tryWrite_def AskOne_def CreateIfNotExists_def WriteFile_def IsExist_def
          diskError_def split: option.splits)
next
  case False
  with assms(2) show ?thesis
    by (auto simp: tryWrite_def CreateIfNotExists_def WriteFile_def IsExist_def
          diskError_def split: option.splits)
qed

lemma writeFiles_diskError:
  "writeFiles env gen dir fs w = (outs, w') \<Longrightarrow> diskError w' = diskError w"
proof (induction fs arbitrary: w outs w')
  case Nil
  then show ?case by simp
next
  case (Cons f fs)
  let ?P = "filepath_Join env [ProjectRoot (cfg env), dir, Path f]"
  obtain r w1 where tw: "tryWrite env ?P (Content f) w = (r, w1)"
    by (cases "tryWrite env ?P (Content f) w")
  have d: "diskError w1 = diskError w"
    using tryWrite_frame(5,6) [OF tw] by (intro ext) (simp add: diskError_def split: option.splits)
  show ?case
  proof (cases r)
    case (Inl err)
    let ?w1 = "w1\<lparr>log := log w1 @ [LogError ''failed to write file'' ?P err],
                   calls := calls w1 @ [CallTryWrite ?P (Inl err)]\<rparr>"
    obtain rest w2 where wf: "writeFiles env gen dir fs ?w1 = (rest, w2)"
      by (cases "writeFiles env gen dir fs ?w1")
    from Cons.prems tw Inl wf have "w' = w2"
      by (simp add: Let_def)
    moreover have "diskError ?w1 = diskError w1"
      by (intro ext) (simp add: diskError_def split: option.splits)
    ultimately show ?thesis
      using Cons.IH [OF wf] d by simp
  next
    case (Inr written)
    let ?w1 = "w1\<lparr>calls := calls w1 @ [CallTryWrite ?P (Inr written)]\<rparr>"
    obtain rest w2 where wf: "writeFiles env gen dir fs ?w1 = (rest, w2)"
      by (cases "writeFiles env gen dir fs ?w1")
    from Cons.prems tw Inr wf have "w' = w2"
      by (simp add: Let_def)
    moreover have "diskError ?w1 = diskError w1"
      by (intro ext) (simp add: diskError_def split: option.splits)
    ultimately show ?thesis
      using Cons.IH [OF wf] d by simp
  qed
qed

lemma bootstrapLibrary_diskError:
  "bootstrapLibrary gen w = (r, w1) \<Longrightarrow> diskError w1 = diskError w"
  by (auto simp: bootstrapLibrary_def diskError_def fun_eq_iff
           split: option.splits if_splits prod.splits)

lemma writeFiles_length:
  "writeFiles env gen dir fs w = (outs, w') \<Longrightarrow> length outs = length fs"
  by (induction fs arbitrary: w outs w')
     (auto simp: Let_def split: prod.splits sum.splits)

lemma writeFiles_saved_state:
  "writeFiles env gen dir fs w = (outs, w') \<Longrightarrow> saved_state w' = saved_state w"
proof (induction fs arbitrary: w outs w')
  case Nil
  then show ?case by simp
next
  case (Cons f fs)
  then show ?case
    by (fastforce simp: Let_def split: prod.splits sum.splits dest: tryWrite_frame(2))
qed

lemma writeFiles_log:
  "writeFiles env gen dir fs w = (outs, w') \<Longrightarrow> set (log w) \<subseteq> set (log w')"
proof (induction fs arbitrary: w outs w')
  case Nil
  then show ?case by simp
next
  case (Cons f fs)
  then show ?case
    by (fastforce simp: Let_def split: prod.splits sum.splits dest: tryWrite_frame(4))
qed

lemma writeFiles_trace:
  "writeFiles env gen dir fs w = (outs, w') \<Longrightarrow>
     \<exists>writes. calls w' = calls w @ writes \<and> length writes = length fs
       \<and> (\<forall>i<length fs. \<exists>res.
             writes ! i = CallTryWrite (filepath_Join env [ProjectRoot (cfg env), dir, Path (fs ! i)]) res
           \<and> res = fst (tryWrite env (filepath_Join env [ProjectRoot (cfg env), dir, Path (fs ! i)])
                          (Content (fs ! i)) (snd (writeFiles env gen dir (take i fs) w)))
           \<and> outs ! i = FileOutput (filepath_Join env [ProjectRoot (cfg env), dir, Path (fs ! i)])
                          (Content (fs ! i))
                          (case res of Inl err \<Rightarrow> Created (fs ! i) | Inr written \<Rightarrow> written)
                          (Some gen)
           \<and> (\<forall>err. res = Inl err \<longrightarrow>
                 LogError ''failed to write file''
                   (filepath_Join env [ProjectRoot (cfg env), dir, Path (fs ! i)]) err \<in> set (log w')))"
proof (induction fs arbitrary: w outs w')
  case Nil
  then show ?case by simp
next
  case (Cons f fs)
  let ?P = "\<lambda>f. filepath_Join env [ProjectRoot (cfg env), dir, Path f]"
  obtain r w1 where tw: "tryWrite env (?P f) (Content f) w = (r, w1)"
    by (cases "tryWrite env (?P f) (Content f) w")
  let ?w1' = "(case r of
      Inl err \<Rightarrow> w1\<lparr>log := log w1 @ [LogError ''failed to write file'' (?P f) err],
                    calls := calls w1 @ [CallTryWrite (?P f) (Inl err)]\<rparr>
    | Inr written \<Rightarrow> w1\<lparr>calls := calls w1 @ [CallTryWrite (?P f) (Inr written)]\<rparr>)"
  obtain rest w2 where wf: "writeFiles env gen dir fs ?w1' = (rest, w2)"
    by (cases "writeFiles env gen dir fs ?w1'")
  from Cons.prems tw wf
  have outs: "outs = FileOutput (?P f) (Content f)
                 (case r of Inl err \<Rightarrow> Created f | Inr written \<Rightarrow> written) (Some gen) # rest"
    and w': "w' = w2"
    by (auto simp: Let_def split: sum.splits)
  have step: "snd (writeFiles env gen dir (f # xs) w) = snd (writeFiles env gen dir xs ?w1')" for xs
    using tw by (cases r) (simp_all add: Let_def split: prod.splits)
  from Cons.IH [OF wf] obtain writes where
    c: "calls w2 = calls ?w1' @ writes" and l: "length writes = length fs"
    and a: "\<forall>i<length fs. \<exists>res.
             writes ! i = CallTryWrite (?P (fs ! i)) res
           \<and> res = fst (tryWrite env (?P (fs ! i)) (Content (fs ! i))
                          (snd (writeFiles env gen dir (take i fs) ?w1')))
           \<and> rest ! i = FileOutput (?P (fs ! i)) (Content (fs ! i))
                          (case res of Inl err \<Rightarrow> Created (fs ! i) | Inr written \<Rightarrow> written)
                          (Some gen)
           \<and> (\<forall>err. res = Inl err \<longrightarrow>
                 LogError ''failed to write file'' (?P (fs ! i)) err \<in> set (log w2))"
    by blast
  have c1: "calls ?w1' = calls w @ [CallTryWrite (?P f) r]"
    using tryWrite_frame(1) [OF tw] by (cases r) simp_all
  have lg: "\<forall>err. r = Inl err \<longrightarrow> LogError ''failed to write file'' (?P f) err \<in> set (log w2)"
    using writeFiles_log [OF wf] by (cases r) auto
  let ?writes = "CallTryWrite (?P f) r # writes"
  have "calls w' = calls w @ ?writes"
    using c c1 w' by simp
  moreover have "length ?writes = length (f # fs)"
    using l by simp
  moreover have "\<forall>i<length (f # fs). \<exists>res.
             ?writes ! i = CallTryWrite (?P ((f # fs) ! i)) res
           \<and> res = fst (tryWrite env (?P ((f # fs) ! i)) (Content ((f # fs) ! i))
                          (snd (writeFiles env gen dir (take i (f # fs)) w)))
           \<and> outs ! i = FileOutput (?P ((f # fs) ! i)) (Content ((f # fs) ! i))
                          (case res of Inl err \<Rightarrow> Created ((f # fs) ! i) | Inr written \<Rightarrow> written)
                          (Some gen)
           \<and> (\<forall>err. res = Inl err \<longrightarrow>
                 LogError ''failed to write file'' (?P ((f # fs) ! i)) err \<in> set (log w'))"
  proof (intro allI impI)
    fix i assume "i < length (f # fs)"
    then show "\<exists>res.
             ?writes ! i = CallTryWrite (?P ((f # fs) ! i)) res
           \<and> res = fst (tryWrite env (?P ((f # fs) ! i)) (Content ((f # fs) ! i))
                          (snd (writeFiles env gen dir (take i (f # fs)) w)))
           \<and> outs ! i = FileOutput (?P ((f # fs) ! i)) (Content ((f # fs) ! i))
                          (case res of Inl err \<Rightarrow> Created ((f # fs) ! i) | Inr written \<Rightarrow> written)
                          (Some gen)
           \<and> (\<forall>err. res = Inl err \<longrightarrow>
                 LogError ''failed to write file'' (?P ((f # fs) ! i)) err \<in> set (log w'))"
    proof (cases i)
      case 0
      with outs lg w' tw show ?thesis by (simp cong: sum.case_cong)
    next
      case (Suc j)
      with \<open>i < length (f # fs)\<close> have j: "j < length fs" by simp
      have t: "take i (f # fs) = f # take j fs"
        using Suc by simp
      from a j obtain res where
        r: "writes ! j = CallTryWrite (?P (fs ! j)) res"
           "res = fst (tryWrite env (?P (fs ! j)) (Content (fs ! j))
                          (snd (writeFiles env gen dir (take j fs) ?w1')))"
           "rest ! j = FileOutput (?P (fs ! j)) (Content (fs ! j))
                          (case res of Inl err \<Rightarrow> Created (fs ! j) | Inr written \<Rightarrow> written)
                          (Some gen)"
           "\<forall>err. res = Inl err \<longrightarrow>
                 LogError ''failed to write file'' (?P (fs ! j)) err \<in> set (log w2)"
        by blast
      have "res = fst (tryWrite env (?P ((f # fs) ! i)) (Content ((f # fs) ! i))
                          (snd (writeFiles env gen dir (take i (f # fs)) w)))"
        unfolding t step using r(2) Suc by simp
      with r(1,3,4) Suc outs w' show ?thesis
        by (simp cong: sum.case_cong)
    qed
  qed
  ultimately show ?case by blast
qed

lemma writeFiles_only_writes:
  assumes "writeFiles env gen dir fs w = (outs, w')"
  shows "\<exists>writes. calls w' = calls w @ writes \<and> (\<forall>c\<in>set writes. \<exists>p r. c = CallTryWrite p r)"
proof -
  from writeFiles_trace [OF assms] obtain writes where
    c: "calls w' = calls w @ writes" and l: "length writes = length fs"
    and a: "\<forall>i<length fs. \<exists>res.
             writes ! i = CallTryWrite (filepath_Join env [ProjectRoot (cfg env), dir, Path (fs ! i)]) res"
    by blast
  have "\<forall>c\<in>set writes. \<exists>p r. c = CallTryWrite p r"
    using a l by (metis in_set_conv_nth)
  with c show ?thesis by blast
qed

lemma writeFiles_append:
  "writeFiles env gen dir (xs @ ys) w =
     (case writeFiles env gen dir xs w of
        (o1, w1) \<Rightarrow> (case writeFiles env gen dir ys w1 of (o2, w2) \<Rightarrow> (o1 @ o2, w2)))"
  by (induction xs arbitrary: w) (simp_all add: Let_def split: prod.splits sum.splits)

lemma bootstrapLibrary_saved_state:
  "bootstrapLibrary gen w = (r, w1) \<Longrightarrow> saved_state w1 = saved_state w"
  by (auto simp: bootstrapLibrary_def split: option.splits if_splits prod.splits)

lemma Generate_write_phase:
  assumes "GetGenerator env langs (Lang (Code (cfg env))) = Some gen"
      and "GetCodeSnippet q (Slug gen) \<noteq> []"
      and "bootstrapLibrary gen w = (None, w1)"
      and "GenerateImpl gen env (clock w1) q = Inr fs"
      and "writeFiles env gen (outDir env) fs (w1\<lparr>calls := calls w1 @ [CallGenerate]\<rparr>) = (outs, w2)"
  shows "Generate langs env q w = (Inr outs, saveLastGenerated q gen w2)"
  using assms by (simp add: Generate_def)

subsection \<open>Evaluation on the concrete inputs\<close>

lemma ToLower_go: "ToLower env ''go'' = ''go''" by code_simp

lemma ex_twoFiles_resolved:
  "GetGenerator (exampleEnv ''go'') [twoFiles] (Lang (Code (cfg (exampleEnv ''go'')))) = Some twoFiles"
  by (simp add: GetGenerator_def exampleEnv_def ToLower_go HasPrefix_def twoFiles_def)

lemma ex_twoFiles_snippet:
  "GetCodeSnippet exampleQuestion (Slug twoFiles) \<noteq> []"
  by (simp add: exampleQuestion_def twoFiles_def)

lemma ex_twoFiles_bootstrap: "bootstrapLibrary twoFiles w = (None, w)"
  by (simp add: bootstrapLibrary_def twoFiles_def)

lemma ex_twoFiles_generate:
  "GenerateImpl twoFiles env now q
     = Inr [FileOutput ''a.go'' ''A'' False None, FileOutput ''a_test.go'' ''B'' False None]"
  by (simp add: twoFiles_def)

lemma ex_paths:
  "outDir (exampleEnv ''go'') = ''go''"
  "filepath_Join (exampleEnv ''go'') [ProjectRoot (cfg (exampleEnv ''go'')), ''go'', ''a.go''] = ''/p/go/a.go''"
  "filepath_Join (exampleEnv ''go'') [ProjectRoot (cfg (exampleEnv ''go'')), ''go'', ''a_test.go''] = ''/p/go/a_test.go''"
  "filepath_Join (exampleEnv ''go'') [ProjectRoot (cfg (exampleEnv ''go'')), ''go'', ''0001.two-sum.go'']
     = ''/p/go/0001.two-sum.go''"
  by (simp_all add: outDir_def exampleEnv_def unixJoin_examples)

lemma ex_no_yes: "\<not> viper_GetBool (exampleEnv lang) ''yes''"
  by (simp add: exampleEnv_def)

lemma ex_twoFiles_write_fails:
  "Generate [twoFiles] (exampleEnv ''go'') exampleQuestion (failingWorld ''/p/go/a.go'' Map.empty [])
     = (Inr [FileOutput ''/p/go/a.go'' ''A'' False (Some twoFiles),
             FileOutput ''/p/go/a_test.go'' ''B'' True (Some twoFiles)],
        saveLastGenerated exampleQuestion twoFiles
          ((failingWorld ''/p/go/a.go'' Map.empty [])\<lparr>
             files := [''/p/go/a.go'' \<mapsto> [], ''/p/go/a_test.go'' \<mapsto> ''B''],
             log := [LogError ''failed to write file'' ''/p/go/a.go'' (Error ''permission denied''),
                     LogInfo ''generated'' ''/p/go/a_test.go''],
             calls := [CallGenerate,
                       CallTryWrite ''/p/go/a.go'' (Inl (Error ''permission denied'')),
                       CallTryWrite ''/p/go/a_test.go'' (Inr True)]\<rparr>))"
  by (simp add: Generate_def ex_twoFiles_resolved ex_twoFiles_snippet ex_twoFiles_bootstrap
        ex_twoFiles_generate ex_paths Let_def tryWrite_def IsExist_def ex_no_yes
        CreateIfNotExists_def WriteFile_def failingWorld_def exampleWorld_def)

lemma ex_golang_resolved:
  "GetGenerator (exampleEnv ''go'') exampleLangs (Lang (Code (cfg (exampleEnv ''go'')))) = Some (baseLang_Generator golang)"
  by (simp add: exampleEnv_def GetGenerator_examples)

lemma ex_golang_snippet:
  "GetCodeSnippet exampleQuestion (Slug (baseLang_Generator golang)) \<noteq> []"
  by (simp add: exampleQuestion_def baseLang_Generator_def golang_def)

lemma ex_golang_bootstrap: "bootstrapLibrary (baseLang_Generator l) w = (None, w)"
  by (simp add: bootstrapLibrary_def baseLang_Generator_def)

lemma ex_golang_generate:
  "GenerateImpl (baseLang_Generator golang) env now exampleQuestion
     = Inr [FileOutput ''0001.two-sum.go''
         (generateComments golang env now exampleQuestion @ nl
            @ generateCode golang exampleQuestion [addCodeMark env ''//''] @ nl) False None]"
  by (simp add: baseLang_Generator_def ex_Generate)

lemma ex_golang_declined:
  "Generate exampleLangs (exampleEnv ''go'') exampleQuestion
      (exampleWorld [''/p/go/0001.two-sum.go'' \<mapsto> ''old''] [Inr False])
     = (Inr [FileOutput ''/p/go/0001.two-sum.go''
               (generateComments golang (exampleEnv ''go'') ''2024/01/01 10:00'' exampleQuestion @ nl
                  @ generateCode golang exampleQuestion [addCodeMark (exampleEnv ''go'') ''//''] @ nl)
               False (Some (baseLang_Generator golang))],
        saveLastGenerated exampleQuestion (baseLang_Generator golang)
          ((exampleWorld [''/p/go/0001.two-sum.go'' \<mapsto> ''old''] [])\<lparr>
             calls := [CallGenerate, CallTryWrite ''/p/go/0001.two-sum.go'' (Inr False)]\<rparr>))"
proof -
  have c: "clock (exampleWorld fs as) = ''2024/01/01 10:00''" for fs as
    by (simp add: exampleWorld_def)
  show ?thesis
    by (simp add: Generate_def ex_golang_resolved ex_golang_snippet ex_golang_bootstrap
        ex_golang_generate c ex_paths Let_def tryWrite_def IsExist_def ex_no_yes AskOne_def)
       (simp add: exampleWorld_def)
qed

lemma ex_testableGo_resolved:
  "GetGenerator (exampleEnv ''go'') [testableGo t] (Lang (Code (cfg (exampleEnv ''go'')))) = Some (testableGo t)"
  by (simp add: GetGenerator_def exampleEnv_def ToLower_go HasPrefix_def testableGo_def)

lemma ex_testableGo_snippet:
  "GetCodeSnippet exampleQuestion (Slug (testableGo t)) \<noteq> []"
  by (simp add: exampleQuestion_def testableGo_def)

lemma ex_twoFiles_prompt_fails:
  "Generate [twoFiles] (exampleEnv ''go'') exampleQuestion
      (exampleWorld [''/p/go/a.go'' \<mapsto> ''old''] [Inl (Error ''interrupt'')])
     = (Inr [FileOutput ''/p/go/a.go'' ''A'' False (Some twoFiles),
             FileOutput ''/p/go/a_test.go'' ''B'' True (Some twoFiles)],
        saveLastGenerated exampleQuestion twoFiles
          ((exampleWorld [''/p/go/a.go'' \<mapsto> ''old'', ''/p/go/a_test.go'' \<mapsto> ''B''] [])\<lparr>
             log := [LogError ''failed to write file'' ''/p/go/a.go'' (Error ''interrupt''),
                     LogInfo ''generated'' ''/p/go/a_test.go''],
             calls := [CallGenerate,
                       CallTryWrite ''/p/go/a.go'' (Inl (Error ''interrupt'')),
                       CallTryWrite ''/p/go/a_test.go'' (Inr True)]\<rparr>))"
  by (simp add: Generate_def ex_twoFiles_resolved ex_twoFiles_snippet ex_twoFiles_bootstrap
        ex_twoFiles_generate ex_paths Let_def tryWrite_def IsExist_def ex_no_yes AskOne_def
        CreateIfNotExists_def WriteFile_def exampleWorld_def)

subsection \<open>Dispatch: the write phase\<close>

text \<open>
  Claim C8. Once the generator has returned its outputs, dispatch returns success with
  one output for each of them, and \<^verbatim>\<open>tryWrite\<close> has been called once for each, in
  their order, whatever the earlier calls returned; the recorded result of call \<open>i\<close>
  is what \<^verbatim>\<open>tryWrite\<close> returned in the world that the outputs before \<open>i\<close> left.
  When the file system fails at the path of output \<open>i\<close> (creating or writing the file
  returns an error) and \<^verbatim>\<open>tryWrite\<close> gets to the file system there, the call
  returns that error, the error is in the log with the path, and the output keeps the
  \<^verbatim>\<open>Created\<close> flag the generator gave it: it stays \<^verbatim>\<open>false\<close> when it was
  \<^verbatim>\<open>false\<close>, as it is for every output of \<^verbatim>\<open>baseLang.Generate\<close>.
\<close>

theorem Generate_write_failure_continues:
  assumes "GetGenerator env langs (Lang (Code (cfg env))) = Some gen"
      and "GetCodeSnippet q (Slug gen) \<noteq> []"
      and "bootstrapLibrary gen w = (None, w1)"
      and "GenerateImpl gen env (clock w1) q = Inr fs"
  shows "\<exists>outs writes.
           fst (Generate langs env q w) = Inr outs
         \<and> length outs = length fs
         \<and> calls (snd (Generate langs env q w)) = calls w1 @ CallGenerate # writes
         \<and> length writes = length fs
         \<and> (\<forall>i<length fs. \<exists>res.
               writes ! i = CallTryWrite
                  (filepath_Join env [ProjectRoot (cfg env), outDir env, Path (fs ! i)]) res
             \<and> res = fst (tryWrite env
                            (filepath_Join env [ProjectRoot (cfg env), outDir env, Path (fs ! i)])
                            (Content (fs ! i))
                            (snd (writeFiles env gen (outDir env) (take i fs)
                                    (w1\<lparr>calls := calls w1 @ [CallGenerate]\<rparr>))))
             \<and> (\<forall>written. res = Inr written \<longrightarrow> Created (outs ! i) = written)
             \<and> (\<forall>err. res = Inl err \<longrightarrow>
                   Created (outs ! i) = Created (fs ! i)
                 \<and> LogError ''failed to write file''
                     (filepath_Join env [ProjectRoot (cfg env), outDir env, Path (fs ! i)]) err
                     \<in> set (log (snd (Generate langs env q w))))
             \<and> (\<forall>err.
                   diskError w
                     (filepath_Join env [ProjectRoot (cfg env), outDir env, Path (fs ! i)])
                     = Some err \<longrightarrow>
                   confirmsWrite env
                     (filepath_Join env [ProjectRoot (cfg env), outDir env, Path (fs ! i)])
                     (snd (writeFiles env gen (outDir env) (take i fs)
                             (w1\<lparr>calls := calls w1 @ [CallGenerate]\<rparr>))) \<longrightarrow>
                   res = Inl err
                 \<and> LogError ''failed to write file''
                     (filepath_Join env [ProjectRoot (cfg env), outDir env, Path (fs ! i)]) err
                     \<in> set (log (snd (Generate langs env q w)))
                 \<and> Created (outs ! i) = Created (fs ! i)
                 \<and> (\<not> Created (fs ! i) \<longrightarrow> \<not> Created (outs ! i))))
         \<and> ((\<exists>l. gen = baseLang_Generator l) \<longrightarrow> (\<forall>i<length fs. \<not> Created (fs ! i)))"
proof -
  let ?w = "w1\<lparr>calls := calls w1 @ [CallGenerate]\<rparr>"
  let ?P = "\<lambda>i. filepath_Join env [ProjectRoot (cfg env), outDir env, Path (fs ! i)]"
  let ?W = "\<lambda>i. snd (writeFiles env gen (outDir env) (take i fs) ?w)"
  obtain outs w2 where wf: "writeFiles env gen (outDir env) fs ?w = (outs, w2)"
    by (cases "writeFiles env gen (outDir env) fs ?w")
  have G: "Generate langs env q w = (Inr outs, saveLastGenerated q gen w2)"
    using Generate_write_phase [OF assms wf] .
  have frame: "calls (saveLastGenerated q gen w2) = calls w2"
              "log (saveLastGenerated q gen w2) = log w2"
    by (simp_all add: saveLastGenerated_def SaveState_def Let_def)
  have disk: "diskError (?W i) = diskError w" for i
  proof -
    have "diskError (?W i) = diskError ?w"
      using writeFiles_diskError [of env gen "outDir env" "take i fs" ?w]
      by (cases "writeFiles env gen (outDir env) (take i fs) ?w") simp
    also have "diskError ?w = diskError w1"
      by (intro ext) (simp add: diskError_def split: option.splits)
    also have "diskError w1 = diskError w"
      using bootstrapLibrary_diskError [OF assms(3)] .
    finally show ?thesis .
  qed
  from writeFiles_trace [OF wf] obtain writes where
    c: "calls w2 = calls ?w @ writes" and l: "length writes = length fs"
    and a: "\<forall>i<length fs. \<exists>res.
             writes ! i = CallTryWrite (?P i) res
           \<and> res = fst (tryWrite env (?P i) (Content (fs ! i)) (?W i))
           \<and> outs ! i = FileOutput (?P i) (Content (fs ! i))
                          (case res of Inl err \<Rightarrow> Created (fs ! i) | Inr written \<Rightarrow> written)
                          (Some gen)
           \<and> (\<forall>err. res = Inl err \<longrightarrow>
                 LogError ''failed to write file'' (?P i) err \<in> set (log w2))"
    by blast
  have each: "\<forall>i<length fs. \<exists>res.
               writes ! i = CallTryWrite (?P i) res
             \<and> res = fst (tryWrite env (?P i) (Content (fs ! i)) (?W i))
             \<and> (\<forall>written. res = Inr written \<longrightarrow> Created (outs ! i) = written)
             \<and> (\<forall>err. res = Inl err \<longrightarrow>
                   Created (outs ! i) = Created (fs ! i)
                 \<and> LogError ''failed to write file'' (?P i) err \<in> set (log w2))
             \<and> (\<forall>err. diskError w (?P i) = Some err \<longrightarrow> confirmsWrite env (?P i) (?W i) \<longrightarrow>
                   res = Inl err
                 \<and> LogError ''failed to write file'' (?P i) err \<in> set (log w2)
                 \<and> Created (outs ! i) = Created (fs ! i)
                 \<and> (\<not> Created (fs ! i) \<longrightarrow> \<not> Created (outs ! i)))"
  proof (intro allI impI)
    fix i assume "i < length fs"
    with a obtain res where
      r: "writes ! i = CallTryWrite (?P i) res"
         "res = fst (tryWrite env (?P i) (Content (fs ! i)) (?W i))"
         "outs ! i = FileOutput (?P i) (Content (fs ! i))
                          (case res of Inl err \<Rightarrow> Created (fs ! i) | Inr written \<Rightarrow> written)
                          (Some gen)"
         "\<forall>err. res = Inl err \<longrightarrow>
                 LogError ''failed to write file'' (?P i) err \<in> set (log w2)"
      by blast
    have inr: "\<forall>written. res = Inr written \<longrightarrow> Created (outs ! i) = written"
      using r(3) by simp
    have inl: "\<forall>err. res = Inl err \<longrightarrow>
                   Created (outs ! i) = Created (fs ! i)
                 \<and> LogError ''failed to write file'' (?P i) err \<in> set (log w2)"
      using r(3,4) by simp
    have tie: "\<forall>err. diskError w (?P i) = Some err \<longrightarrow> confirmsWrite env (?P i) (?W i) \<longrightarrow>
                   res = Inl err
                 \<and> LogError ''failed to write file'' (?P i) err \<in> set (log w2)
                 \<and> Created (outs ! i) = Created (fs ! i)
                 \<and> (\<not> Created (fs ! i) \<longrightarrow> \<not> Created (outs ! i))"
    proof (intro allI impI)
      fix err
      assume d: "diskError w (?P i) = Some err" and cw: "confirmsWrite env (?P i) (?W i)"
      from d have "diskError (?W i) (?P i) = Some err"
        by (simp add: disk)
      from tryWrite_disk_failure [OF cw this] r(2) have "res = Inl err"
        by simp
      with inl show "res = Inl err
                 \<and> LogError ''failed to write file'' (?P i) err \<in> set (log w2)
                 \<and> Created (outs ! i) = Created (fs ! i)
                 \<and> (\<not> Created (fs ! i) \<longrightarrow> \<not> Created (outs ! i))"
        by simp
    qed
    from r(1,2) inr inl tie show "\<exists>res.
               writes ! i = CallTryWrite (?P i) res
             \<and> res = fst (tryWrite env (?P i) (Content (fs ! i)) (?W i))
             \<and> (\<forall>written. res = Inr written \<longrightarrow> Created (outs ! i) = written)
             \<and> (\<forall>err. res = Inl err \<longrightarrow>
                   Created (outs ! i) = Created (fs ! i)
                 \<and> LogError ''failed to write file'' (?P i) err \<in> set (log w2))
             \<and> (\<forall>err. diskError w (?P i) = Some err \<longrightarrow> confirmsWrite env (?P i) (?W i) \<longrightarrow>
                   res = Inl err
                 \<and> LogError ''failed to write file'' (?P i) err \<in> set (log w2)
                 \<and> Created (outs ! i) = Created (fs ! i)
                 \<and> (\<not> Created (fs ! i) \<longrightarrow> \<not> Created (outs ! i)))"
      by blast
  qed
  have base: "(\<exists>l. gen = baseLang_Generator l) \<longrightarrow> (\<forall>i<length fs. \<not> Created (fs ! i))"
  proof
    assume "\<exists>l. gen = baseLang_Generator l"
    then obtain l where "gen = baseLang_Generator l" ..
    with assms(4) have "baseLang_Generate l env (clock w1) q = Inr fs"
      by (simp add: baseLang_Generator_def)
    from baseLang_Generate_Inr [OF this] show "\<forall>i<length fs. \<not> Created (fs ! i)"
      by auto
  qed
  have "fst (Generate langs env q w) = Inr outs"
       "calls (snd (Generate langs env q w)) = calls w1 @ CallGenerate # writes"
       "log (snd (Generate langs env q w)) = log w2"
    unfolding G using c by (simp_all add: frame)
  with each base l writeFiles_length [OF wf] show ?thesis
    by (intro exI [of _ outs] exI [of _ writes]) simp
qed

theorem Generate_write_failure_continues_witness:
  "diskError (failingWorld ''/p/go/a.go'' Map.empty []) ''/p/go/a.go''
     = Some (Error ''permission denied'')
   \<and> confirmsWrite (exampleEnv ''go'') ''/p/go/a.go''
       ((failingWorld ''/p/go/a.go'' Map.empty [])\<lparr>calls := [CallGenerate]\<rparr>)
   \<and> fst (Generate [twoFiles] (exampleEnv ''go'') exampleQuestion
          (failingWorld ''/p/go/a.go'' Map.empty []))
     = Inr [FileOutput ''/p/go/a.go'' ''A'' False (Some twoFiles),
            FileOutput ''/p/go/a_test.go'' ''B'' True (Some twoFiles)]
   \<and> calls (snd (Generate [twoFiles] (exampleEnv ''go'') exampleQuestion
          (failingWorld ''/p/go/a.go'' Map.empty [])))
     = [CallGenerate,
        CallTryWrite ''/p/go/a.go'' (Inl (Error ''permission denied'')),
        CallTryWrite ''/p/go/a_test.go'' (Inr True)]
   \<and> log (snd (Generate [twoFiles] (exampleEnv ''go'') exampleQuestion
          (failingWorld ''/p/go/a.go'' Map.empty [])))
     = [LogError ''failed to write file'' ''/p/go/a.go'' (Error ''permission denied''),
        LogInfo ''generated'' ''/p/go/a_test.go'']"
proof -
  let ?w = "failingWorld ''/p/go/a.go'' Map.empty []"
  let ?env = "exampleEnv ''go''"
  let ?fs = "[FileOutput ''a.go'' ''A'' False None, FileOutput ''a_test.go'' ''B'' False None]"
  have d: "diskError ?w ''/p/go/a.go'' = Some (Error ''permission denied'')"
    by (simp add: diskError_def failingWorld_def exampleWorld_def)
  have cw: "confirmsWrite ?env ''/p/go/a.go'' (?w\<lparr>calls := [CallGenerate]\<rparr>)"
    by (simp add: confirmsWrite_def IsExist_def failingWorld_def exampleWorld_def)
  note T = Generate_write_failure_continues
    [OF ex_twoFiles_resolved ex_twoFiles_snippet ex_twoFiles_bootstrap ex_twoFiles_generate,
     of ?w]
  then obtain outs writes where
    o: "fst (Generate [twoFiles] ?env exampleQuestion ?w) = Inr outs"
    and c: "calls (snd (Generate [twoFiles] ?env exampleQuestion ?w)) = calls ?w @ CallGenerate # writes"
    and e: "\<forall>i<length ?fs. \<exists>res.
               writes ! i = CallTryWrite
                  (filepath_Join ?env [ProjectRoot (cfg ?env), outDir ?env, Path (?fs ! i)]) res
             \<and> (\<forall>err.
                   diskError ?w
                     (filepath_Join ?env [ProjectRoot (cfg ?env), outDir ?env, Path (?fs ! i)])
                     = Some err \<longrightarrow>
                   confirmsWrite ?env
                     (filepath_Join ?env [ProjectRoot (cfg ?env), outDir ?env, Path (?fs ! i)])
                     (snd (writeFiles ?env twoFiles (outDir ?env) (take i ?fs)
                             (?w\<lparr>calls := calls ?w @ [CallGenerate]\<rparr>))) \<longrightarrow>
                   res = Inl err
                 \<and> LogError ''failed to write file''
                     (filepath_Join ?env [ProjectRoot (cfg ?env), outDir ?env, Path (?fs ! i)]) err
                     \<in> set (log (snd (Generate [twoFiles] ?env exampleQuestion ?w)))
                 \<and> Created (outs ! i) = Created (?fs ! i)
                 \<and> (\<not> Created (?fs ! i) \<longrightarrow> \<not> Created (outs ! i)))"
    by blast
  have c0: "calls ?w = []"
    by (simp add: failingWorld_def exampleWorld_def)
  from e [rule_format, of 0] d cw
  have "LogError ''failed to write file'' ''/p/go/a.go'' (Error ''permission denied'')
          \<in> set (log (snd (Generate [twoFiles] ?env exampleQuestion ?w)))"
    by (auto simp: ex_paths c0)
  with d cw show ?thesis
    unfolding ex_twoFiles_write_fails
    by (simp add: saveLastGenerated_def SaveState_def Let_def)
qed

text \<open>
  Claim C9. Once the generator has returned its outputs, the persisted state after
  dispatch is the state before with its record of the last generated question replaced
  by the slug and the frontend id of the question and the slug of the generator. This
  holds in every world: whatever the prompts answer and whichever writes fail.
\<close>

theorem Generate_persists_LastGenerated:
  assumes "GetGenerator env langs (Lang (Code (cfg env))) = Some gen"
      and "GetCodeSnippet q (Slug gen) \<noteq> []"
      and "bootstrapLibrary gen w = (None, w1)"
      and "GenerateImpl gen env (clock w1) q = Inr fs"
  shows "LastGenerated (saved_state (snd (Generate langs env q w)))
           = \<lparr>Slug_lg = TitleSlug q, FrontendID = QuestionFrontendId q, Gen = Slug gen\<rparr>
       \<and> saved_state (snd (Generate langs env q w))
           = (saved_state w)\<lparr>LastGenerated :=
               \<lparr>Slug_lg = TitleSlug q, FrontendID = QuestionFrontendId q, Gen = Slug gen\<rparr>\<rparr>"
proof -
  let ?w = "w1\<lparr>calls := calls w1 @ [CallGenerate]\<rparr>"
  obtain outs w2 where wf: "writeFiles env gen (outDir env) fs ?w = (outs, w2)"
    by (cases "writeFiles env gen (outDir env) fs ?w")
  have G: "Generate langs env q w = (Inr outs, saveLastGenerated q gen w2)"
    using Generate_write_phase [OF assms wf] .
  have "saved_state w2 = saved_state w"
    using writeFiles_saved_state [OF wf] bootstrapLibrary_saved_state [OF assms(3)] by simp
  then show ?thesis
    unfolding G by (simp add: saveLastGenerated_def SaveState_def LoadState_def Let_def)
qed

theorem Generate_persists_LastGenerated_witness:
  "fst (Generate exampleLangs (exampleEnv ''go'') exampleQuestion
          (exampleWorld [''/p/go/0001.two-sum.go'' \<mapsto> ''old''] [Inr False]))
     = Inr [FileOutput ''/p/go/0001.two-sum.go''
               (generateComments golang (exampleEnv ''go'') ''2024/01/01 10:00'' exampleQuestion @ nl
                  @ generateCode golang exampleQuestion [addCodeMark (exampleEnv ''go'') ''//''] @ nl)
               False (Some (baseLang_Generator golang))]
   \<and> files (snd (Generate exampleLangs (exampleEnv ''go'') exampleQuestion
          (exampleWorld [''/p/go/0001.two-sum.go'' \<mapsto> ''old''] [Inr False])))
        ''/p/go/0001.two-sum.go'' = Some ''old''
   \<and> LastGenerated (saved_state (exampleWorld [''/p/go/0001.two-sum.go'' \<mapsto> ''old''] [Inr False]))
     = \<lparr>Slug_lg = ''add-two-numbers'', FrontendID = ''2'', Gen = ''python3''\<rparr>
   \<and> LastGenerated (saved_state (snd (Generate exampleLangs (exampleEnv ''go'') exampleQuestion
          (exampleWorld [''/p/go/0001.two-sum.go'' \<mapsto> ''old''] [Inr False]))))
     = \<lparr>Slug_lg = ''two-sum'', FrontendID = ''1'', Gen = ''golang''\<rparr>"
proof -
  note T = Generate_persists_LastGenerated
    [OF ex_golang_resolved ex_golang_snippet ex_golang_bootstrap ex_golang_generate,
     of "exampleWorld [''/p/go/0001.two-sum.go'' \<mapsto> ''old''] [Inr False]"]
  have q: "TitleSlug exampleQuestion = ''two-sum''" "QuestionFrontendId exampleQuestion = ''1''"
          "Slug (baseLang_Generator golang) = ''golang''"
    by (simp_all add: exampleQuestion_def baseLang_Generator_def golang_def)
  from T have "LastGenerated (saved_state (snd (Generate exampleLangs (exampleEnv ''go'') exampleQuestion
          (exampleWorld [''/p/go/0001.two-sum.go'' \<mapsto> ''old''] [Inr False]))))
     = \<lparr>Slug_lg = ''two-sum'', FrontendID = ''1'', Gen = ''golang''\<rparr>"
    by (simp add: q)
  then show ?thesis
    unfolding ex_golang_declined
    by (simp add: saveLastGenerated_def SaveState_def Let_def exampleWorld_def)
qed

subsection \<open>Dispatch: the library of a testable generator\<close>

text \<open>
  Claim C4. For a resolved generator that is \<^verbatim>\<open>Testable\<close> and whose library is not
  installed: when \<^verbatim>\<open>GenerateLibrary\<close> fails, dispatch returns its error, having
  called \<^verbatim>\<open>CheckLibrary\<close> and \<^verbatim>\<open>GenerateLibrary\<close> and nothing else (the
  generator is not called, nothing is written beyond what \<^verbatim>\<open>GenerateLibrary\<close> left,
  the state is the same). When it succeeds, the calls of dispatch are
  \<^verbatim>\<open>CheckLibrary\<close>, \<^verbatim>\<open>GenerateLibrary\<close>, \<^verbatim>\<open>Generate\<close> and then only calls of
  \<^verbatim>\<open>tryWrite\<close>: the library is generated once, before the generator runs.
\<close>

theorem Generate_library_before_generate:
  assumes "GetGenerator env langs (Lang (Code (cfg env))) = Some gen"
      and "GetCodeSnippet q (Slug gen) \<noteq> []"
      and "AsTestable gen = Some t"
      and "\<not> CheckLibrary t (files w)"
      and "GenerateLibrary t (files w) = (r, fs)"
  shows "(\<forall>err. r = Some err \<longrightarrow>
            Generate langs env q w
              = (Inl err, w\<lparr>files := fs, calls := calls w @ [CallCheckLibrary, CallGenerateLibrary]\<rparr>))
       \<and> (r = None \<longrightarrow>
            (\<exists>writes. calls (snd (Generate langs env q w))
                = calls w @ [CallCheckLibrary, CallGenerateLibrary, CallGenerate] @ writes
              \<and> (\<forall>c\<in>set writes. \<exists>p res. c = CallTryWrite p res)))"
proof -
  let ?w1 = "w\<lparr>files := fs, calls := calls w @ [CallCheckLibrary, CallGenerateLibrary]\<rparr>"
  have b: "bootstrapLibrary gen w = (r, ?w1)"
    using assms(3-5) by (simp add: bootstrapLibrary_def)
  have e: "\<forall>err. r = Some err \<longrightarrow> Generate langs env q w = (Inl err, ?w1)"
    using assms(1,2) b by (simp add: Generate_def)
  have n: "r = None \<longrightarrow>
            (\<exists>writes. calls (snd (Generate langs env q w))
                = calls w @ [CallCheckLibrary, CallGenerateLibrary, CallGenerate] @ writes
              \<and> (\<forall>c\<in>set writes. \<exists>p res. c = CallTryWrite p res))"
  proof
    assume r: "r = None"
    show "\<exists>writes. calls (snd (Generate langs env q w))
                = calls w @ [CallCheckLibrary, CallGenerateLibrary, CallGenerate] @ writes
              \<and> (\<forall>c\<in>set writes. \<exists>p res. c = CallTryWrite p res)"
    proof (cases "GenerateImpl gen env (clock ?w1) q")
      case (Inl err)
      with assms(1,2) b r have "Generate langs env q w
          = (Inl err, ?w1\<lparr>calls := calls ?w1 @ [CallGenerate]\<rparr>)"
        by (simp add: Generate_def)
      then show ?thesis by simp
    next
      case (Inr files0)
      let ?w = "?w1\<lparr>calls := calls ?w1 @ [CallGenerate]\<rparr>"
      obtain outs w2 where wf: "writeFiles env gen (outDir env) files0 ?w = (outs, w2)"
        by (cases "writeFiles env gen (outDir env) files0 ?w")
      from b r have b': "bootstrapLibrary gen w = (None, ?w1)" by simp
      have G: "Generate langs env q w = (Inr outs, saveLastGenerated q gen w2)"
        using Generate_write_phase [OF assms(1,2) b' Inr wf] .
      from writeFiles_only_writes [OF wf] obtain writes where
        "calls w2 = calls ?w @ writes" "\<forall>c\<in>set writes. \<exists>p r. c = CallTryWrite p r"
        by blast
      then show ?thesis
        unfolding G by (simp add: saveLastGenerated_def SaveState_def Let_def)
    qed
  qed
  from e n show ?thesis by blast
qed

theorem Generate_library_before_generate_witness:
  "Generate [testableGo brokenLibrary] (exampleEnv ''go'') exampleQuestion (exampleWorld Map.empty [])
     = (Inl (Error ''permission denied''),
        (exampleWorld Map.empty [])\<lparr>calls := [CallCheckLibrary, CallGenerateLibrary]\<rparr>)
   \<and> calls (snd (Generate [testableGo exampleLibrary] (exampleEnv ''go'') exampleQuestion
        (exampleWorld Map.empty [])))
     = [CallCheckLibrary, CallGenerateLibrary, CallGenerate,
        CallTryWrite ''/p/go/0001.two-sum.go'' (Inr True)]"
proof -
  let ?w = "exampleWorld Map.empty []"
  have a: "AsTestable (testableGo t) = Some t" for t
    by (simp add: testableGo_def)
  have f: "files ?w = Map.empty" "calls ?w = []"
    by (simp_all add: exampleWorld_def)
  have c1: "\<not> CheckLibrary brokenLibrary (files ?w)"
    by (simp add: brokenLibrary_def f)
  have g1: "GenerateLibrary brokenLibrary (files ?w) = (Some (Error ''permission denied''), Map.empty)"
    by (simp add: brokenLibrary_def f)
  have c2: "\<not> CheckLibrary exampleLibrary (files ?w)"
    by (simp add: exampleLibrary_def f)
  have g2: "GenerateLibrary exampleLibrary (files ?w)
              = (None, [''/p/go/testutils.go'' \<mapsto> ''package testutils''])"
    by (simp add: exampleLibrary_def f)
  note T1 = Generate_library_before_generate
    [OF ex_testableGo_resolved ex_testableGo_snippet a c1 g1]
  note T2 = Generate_library_before_generate
    [OF ex_testableGo_resolved ex_testableGo_snippet a c2 g2]
  from T1 have 1: "Generate [testableGo brokenLibrary] (exampleEnv ''go'') exampleQuestion ?w
     = (Inl (Error ''permission denied''), ?w\<lparr>calls := [CallCheckLibrary, CallGenerateLibrary]\<rparr>)"
    by (simp add: f)
  from T2 obtain writes where
    w: "calls (snd (Generate [testableGo exampleLibrary] (exampleEnv ''go'') exampleQuestion ?w))
          = calls ?w @ [CallCheckLibrary, CallGenerateLibrary, CallGenerate] @ writes"
    by blast
  have b: "bootstrapLibrary (testableGo exampleLibrary) ?w
             = (None, ?w\<lparr>files := [''/p/go/testutils.go'' \<mapsto> ''package testutils''],
                         calls := calls ?w @ [CallCheckLibrary, CallGenerateLibrary]\<rparr>)"
    using c2 g2 by (simp add: bootstrapLibrary_def a)
  have gi: "GenerateImpl (testableGo exampleLibrary) (exampleEnv ''go'') now exampleQuestion
     = Inr [FileOutput ''0001.two-sum.go''
         (generateComments golang (exampleEnv ''go'') now exampleQuestion @ nl
            @ generateCode golang exampleQuestion [addCodeMark (exampleEnv ''go'') ''//''] @ nl) False None]"
    for now
    by (simp add: testableGo_def ex_Generate)
  have 2: "calls (snd (Generate [testableGo exampleLibrary] (exampleEnv ''go'') exampleQuestion ?w))
     = [CallCheckLibrary, CallGenerateLibrary, CallGenerate,
        CallTryWrite ''/p/go/0001.two-sum.go'' (Inr True)]"
    using w
    apply (simp add: Generate_def ex_testableGo_resolved ex_testableGo_snippet b gi ex_paths)
    apply (simp add: Let_def tryWrite_def IsExist_def ex_no_yes CreateIfNotExists_def WriteFile_def
        saveLastGenerated_def SaveState_def exampleWorld_def)
    done
  from 1 2 show ?thesis by simp
qed

subsection \<open>Dispatch: a prompt that fails\<close>

text \<open>
  Claim C3 as stated asks that dispatch aborts with an error when the confirmation
  prompt fails. Here the first of two outputs exists on the disk and its prompt fails:
  \<^verbatim>\<open>tryWrite\<close> returns the error, and dispatch returns success, has written the second
  output and has persisted the record of the last generated question.
\<close>

theorem Generate_prompt_failure_not_aborting:
  "tryWrite (exampleEnv ''go'') ''/p/go/a.go'' ''A''
      ((exampleWorld [''/p/go/a.go'' \<mapsto> ''old''] [Inl (Error ''interrupt'')])\<lparr>calls := [CallGenerate]\<rparr>)
     = (Inl (Error ''interrupt''),
        (exampleWorld [''/p/go/a.go'' \<mapsto> ''old''] [])\<lparr>calls := [CallGenerate]\<rparr>)
   \<and> fst (Generate [twoFiles] (exampleEnv ''go'') exampleQuestion
          (exampleWorld [''/p/go/a.go'' \<mapsto> ''old''] [Inl (Error ''interrupt'')]))
     = Inr [FileOutput ''/p/go/a.go'' ''A'' False (Some twoFiles),
            FileOutput ''/p/go/a_test.go'' ''B'' True (Some twoFiles)]
   \<and> files (snd (Generate [twoFiles] (exampleEnv ''go'') exampleQuestion
          (exampleWorld [''/p/go/a.go'' \<mapsto> ''old''] [Inl (Error ''interrupt'')])))
        ''/p/go/a_test.go'' = Some ''B''
   \<and> LastGenerated (saved_state (snd (Generate [twoFiles] (exampleEnv ''go'') exampleQuestion
          (exampleWorld [''/p/go/a.go'' \<mapsto> ''old''] [Inl (Error ''interrupt'')]))))
     = \<lparr>Slug_lg = ''two-sum'', FrontendID = ''1'', Gen = ''golang''\<rparr>"
proof -
  have 1: "tryWrite (exampleEnv ''go'') ''/p/go/a.go'' ''A''
      ((exampleWorld [''/p/go/a.go'' \<mapsto> ''old''] [Inl (Error ''interrupt'')])\<lparr>calls := [CallGenerate]\<rparr>)
     = (Inl (Error ''interrupt''),
        (exampleWorld [''/p/go/a.go'' \<mapsto> ''old''] [])\<lparr>calls := [CallGenerate]\<rparr>)"
    by (simp add: tryWrite_def IsExist_def ex_no_yes AskOne_def exampleWorld_def)
  from 1 show ?thesis
    unfolding ex_twoFiles_prompt_fails
    by (simp add: saveLastGenerated_def SaveState_def LoadState_def Let_def exampleWorld_def
          exampleQuestion_def twoFiles_def)
qed

text \<open>
  Claim C3, amended. When the confirmation prompt for an output fails, \<^verbatim>\<open>tryWrite\<close>
  returns the error of the prompt and writes nothing; dispatch logs the error, leaves
  the \<^verbatim>\<open>Created\<close> flag of that output as the generator gave it, handles the outputs
  after it, persists the record of the last generated question and returns success.
\<close>

theorem Generate_prompt_failure_continues:
  assumes "GetGenerator env langs (Lang (Code (cfg env))) = Some gen"
      and "GetCodeSnippet q (Slug gen) \<noteq> []"
      and "bootstrapLibrary gen w = (None, w1)"
      and "GenerateImpl gen env (clock w1) q = Inr (pre @ f # post)"
      and "writeFiles env gen (outDir env) pre (w1\<lparr>calls := calls w1 @ [CallGenerate]\<rparr>) = (outs_pre, w2)"
      and "path = filepath_Join env [ProjectRoot (cfg env), outDir env, Path f]"
      and "IsExist w2 path"
      and "\<not> viper_GetBool env ''yes''"
      and "answers w2 = Inl err # rest"
      and "writeFiles env gen (outDir env) post
             (w2\<lparr>answers := rest,
                 log := log w2 @ [LogError ''failed to write file'' path err],
                 calls := calls w2 @ [CallTryWrite path (Inl err)]\<rparr>) = (outs_post, w3)"
  shows "tryWrite env path (Content f) w2 = (Inl err, w2\<lparr>answers := rest\<rparr>)
       \<and> Generate langs env q w
           = (Inr (outs_pre @ FileOutput path (Content f) (Created f) (Some gen) # outs_post),
              saveLastGenerated q gen w3)"
proof -
  have tw: "tryWrite env path (Content f) w2 = (Inl err, w2\<lparr>answers := rest\<rparr>)"
    using assms(7-9) by (simp add: tryWrite_def AskOne_def)
  have "writeFiles env gen (outDir env) (f # post) w2
          = (FileOutput path (Content f) (Created f) (Some gen) # outs_post, w3)"
    using tw assms(6,10) by (simp add: Let_def)
  with assms(5)
  have "writeFiles env gen (outDir env) (pre @ f # post) (w1\<lparr>calls := calls w1 @ [CallGenerate]\<rparr>)
          = (outs_pre @ FileOutput path (Content f) (Created f) (Some gen) # outs_post, w3)"
    by (simp add: writeFiles_append)
  from Generate_write_phase [OF assms(1-4) this] tw show ?thesis
    by simp
qed

theorem Generate_prompt_failure_continues_witness:
  "Generate [twoFiles] (exampleEnv ''go'') exampleQuestion
      (exampleWorld [''/p/go/a.go'' \<mapsto> ''old''] [Inl (Error ''interrupt'')])
     = (Inr [FileOutput ''/p/go/a.go'' ''A'' False (Some twoFiles),
             FileOutput ''/p/go/a_test.go'' ''B'' True (Some twoFiles)],
        saveLastGenerated exampleQuestion twoFiles
          ((exampleWorld [''/p/go/a.go'' \<mapsto> ''old'', ''/p/go/a_test.go'' \<mapsto> ''B''] [])\<lparr>
             log := [LogError ''failed to write file'' ''/p/go/a.go'' (Error ''interrupt''),
                     LogInfo ''generated'' ''/p/go/a_test.go''],
             calls := [CallGenerate,
                       CallTryWrite ''/p/go/a.go'' (Inl (Error ''interrupt'')),
                       CallTryWrite ''/p/go/a_test.go'' (Inr True)]\<rparr>))"
proof -
  let ?w = "exampleWorld [''/p/go/a.go'' \<mapsto> ''old''] [Inl (Error ''interrupt'')]"
  let ?w2 = "?w\<lparr>calls := calls ?w @ [CallGenerate]\<rparr>"
  let ?f = "FileOutput ''a.go'' ''A'' False None"
  let ?g = "FileOutput ''a_test.go'' ''B'' False None"
  let ?w2' = "?w2\<lparr>answers := [],
                 log := log ?w2 @ [LogError ''failed to write file'' ''/p/go/a.go'' (Error ''interrupt'')],
                 calls := calls ?w2 @ [CallTryWrite ''/p/go/a.go'' (Inl (Error ''interrupt''))]\<rparr>"
  have g: "GenerateImpl twoFiles (exampleEnv ''go'') (clock ?w) exampleQuestion = Inr ([] @ ?f # [?g])"
    by (simp add: ex_twoFiles_generate)
  have pre: "writeFiles (exampleEnv ''go'') twoFiles (outDir (exampleEnv ''go'')) [] ?w2 = ([], ?w2)"
    by simp
  have p: "''/p/go/a.go'' = filepath_Join (exampleEnv ''go'') [ProjectRoot (cfg (exampleEnv ''go'')), outDir (exampleEnv ''go''), Path ?f]"
    by (simp add: ex_paths)
  have e: "IsExist ?w2 ''/p/go/a.go''"
    by (simp add: IsExist_def exampleWorld_def)
  have a: "answers ?w2 = Inl (Error ''interrupt'') # []"
    by (simp add: exampleWorld_def)
  have post: "writeFiles (exampleEnv ''go'') twoFiles (outDir (exampleEnv ''go'')) [?g] ?w2'
      = ([FileOutput ''/p/go/a_test.go'' ''B'' True (Some twoFiles)],
         (exampleWorld [''/p/go/a.go'' \<mapsto> ''old'', ''/p/go/a_test.go'' \<mapsto> ''B''] [])\<lparr>
             log := [LogError ''failed to write file'' ''/p/go/a.go'' (Error ''interrupt''),
                     LogInfo ''generated'' ''/p/go/a_test.go''],
             calls := [CallGenerate,
                       CallTryWrite ''/p/go/a.go'' (Inl (Error ''interrupt'')),
                       CallTryWrite ''/p/go/a_test.go'' (Inr True)]\<rparr>)"
    by (simp add: ex_paths Let_def tryWrite_def IsExist_def ex_no_yes
          CreateIfNotExists_def WriteFile_def exampleWorld_def)
  from Generate_prompt_failure_continues
         [OF ex_twoFiles_resolved ex_twoFiles_snippet ex_twoFiles_bootstrap g pre p e ex_no_yes a post]
  show ?thesis
    by simp
qed

subsection \<open>Dispatch with an empty language identifier\<close>

text \<open>
  Claim C10. The empty identifier is a prefix of every name, so over a registry that is
  not empty resolution of the empty identifier returns the first registered generator
  and never reports that nothing was found. Dispatch with an empty configured language
  then goes on with that generator, as it does over a registry that holds only that
  generator: without a snippet for its slug it fails with the error of the missing
  snippet, which is not the error of the unsupported language; with a snippet, an
  error of the library or of the generator is returned as it is, and otherwise the
  outputs of that generator are written, the call succeeds and the record of the last
  generated question names that generator.
\<close>

theorem GetGenerator_empty_identifier:
  "langs \<noteq> [] \<Longrightarrow>
     GetGenerator env langs [] = Some (hd langs)
     \<and> GetGenerator env langs [] \<noteq> None
     \<and> (Lang (Code (cfg env)) = [] \<longrightarrow>
          Generate langs env q w = Generate [hd langs] env q w
        \<and> (GetCodeSnippet q (Slug (hd langs)) = [] \<longrightarrow>
             Generate langs env q w = (Inl (SnippetMissing [] (TitleSlug q)), w)
           \<and> SnippetMissing [] (TitleSlug q) \<noteq> LanguageUnsupported [])
        \<and> (GetCodeSnippet q (Slug (hd langs)) \<noteq> [] \<longrightarrow>
             (\<forall>err w1. bootstrapLibrary (hd langs) w = (Some err, w1) \<longrightarrow>
                Generate langs env q w = (Inl err, w1))
           \<and> (\<forall>err w1. bootstrapLibrary (hd langs) w = (None, w1) \<longrightarrow>
                GenerateImpl (hd langs) env (clock w1) q = Inl err \<longrightarrow>
                Generate langs env q w = (Inl err, w1\<lparr>calls := calls w1 @ [CallGenerate]\<rparr>))
           \<and> (\<forall>fs w1. bootstrapLibrary (hd langs) w = (None, w1) \<longrightarrow>
                GenerateImpl (hd langs) env (clock w1) q = Inr fs \<longrightarrow>
                Generate langs env q w
                  = (Inr (fst (writeFiles env (hd langs) (outDir env) fs
                                 (w1\<lparr>calls := calls w1 @ [CallGenerate]\<rparr>))),
                     saveLastGenerated q (hd langs)
                       (snd (writeFiles env (hd langs) (outDir env) fs
                               (w1\<lparr>calls := calls w1 @ [CallGenerate]\<rparr>))))
                \<and> Gen (LastGenerated (saved_state (snd (Generate langs env q w))))
                    = Slug (hd langs))))"
proof -
  assume ne: "langs \<noteq> []"
  have r: "GetGenerator env langs [] = Some (hd langs)"
    using ne by (cases langs) (simp_all add: GetGenerator_def ToLower_Nil HasPrefix_def)
  have r1: "GetGenerator env [hd langs] [] = Some (hd langs)"
    by (simp add: GetGenerator_def ToLower_Nil HasPrefix_def)
  have d: "SnippetMissing [] t \<noteq> LanguageUnsupported []" for t
    by (simp add: SnippetMissing_def LanguageUnsupported_def)
  show ?thesis
  proof (intro conjI impI allI)
    show "GetGenerator env langs [] = Some (hd langs)"
      by (rule r)
    show "GetGenerator env langs [] \<noteq> None"
      by (simp add: r)
    show "Generate langs env q w = Generate [hd langs] env q w"
      if "Lang (Code (cfg env)) = []"
      using that by (simp add: Generate_def r r1)
    show "Generate langs env q w = (Inl (SnippetMissing [] (TitleSlug q)), w)"
      if "Lang (Code (cfg env)) = []" "GetCodeSnippet q (Slug (hd langs)) = []"
      using that by (simp add: Generate_def r)
    show "SnippetMissing [] (TitleSlug q) \<noteq> LanguageUnsupported []"
      by (rule d)
    show "Generate langs env q w = (Inl err, w1)"
      if "Lang (Code (cfg env)) = []" "GetCodeSnippet q (Slug (hd langs)) \<noteq> []"
         "bootstrapLibrary (hd langs) w = (Some err, w1)" for err w1
      using that by (simp add: Generate_def r)
    show "Generate langs env q w = (Inl err, w1\<lparr>calls := calls w1 @ [CallGenerate]\<rparr>)"
      if "Lang (Code (cfg env)) = []" "GetCodeSnippet q (Slug (hd langs)) \<noteq> []"
         "bootstrapLibrary (hd langs) w = (None, w1)"
         "GenerateImpl (hd langs) env (clock w1) q = Inl err" for err w1
      using that by (simp add: Generate_def r)
    show "Generate langs env q w
            = (Inr (fst (writeFiles env (hd langs) (outDir env) fs
                           (w1\<lparr>calls := calls w1 @ [CallGenerate]\<rparr>))),
               saveLastGenerated q (hd langs)
                 (snd (writeFiles env (hd langs) (outDir env) fs
                         (w1\<lparr>calls := calls w1 @ [CallGenerate]\<rparr>))))"
      if "Lang (Code (cfg env)) = []" "GetCodeSnippet q (Slug (hd langs)) \<noteq> []"
         "bootstrapLibrary (hd langs) w = (None, w1)"
         "GenerateImpl (hd langs) env (clock w1) q = Inr fs" for fs w1
      using that by (simp add: Generate_def r split: prod.splits)
    show "Gen (LastGenerated (saved_state (snd (Generate langs env q w)))) = Slug (hd langs)"
      if "Lang (Code (cfg env)) = []" "GetCodeSnippet q (Slug (hd langs)) \<noteq> []"
         "bootstrapLibrary (hd langs) w = (None, w1)"
         "GenerateImpl (hd langs) env (clock w1) q = Inr fs" for fs w1
      using that
      by (simp add: Generate_def r saveLastGenerated_def SaveState_def LoadState_def Let_def
            split: prod.splits)
  qed
qed

theorem GetGenerator_empty_identifier_witness:
  "exampleLangs \<noteq> []
   \<and> Lang (Code (cfg (exampleEnv []))) = []
   \<and> GetGenerator (exampleEnv []) exampleLangs [] = Some (baseLang_Generator golang)
   \<and> fst (Generate exampleLangs (exampleEnv []) exampleQuestion (exampleWorld Map.empty []))
       = Inr [FileOutput ''/p/0001.two-sum.go''
                (generateComments golang (exampleEnv []) ''2024/01/01 10:00'' exampleQuestion @ nl
                   @ generateCode golang exampleQuestion [addCodeMark (exampleEnv []) ''//''] @ nl)
                True (Some (baseLang_Generator golang))]
   \<and> Gen (LastGenerated (saved_state
         (snd (Generate exampleLangs (exampleEnv []) exampleQuestion (exampleWorld Map.empty [])))))
       = ''golang''"
proof -
  let ?env = "exampleEnv []"
  let ?w = "exampleWorld Map.empty []"
  let ?g = "baseLang_Generator golang"
  let ?fs = "[FileOutput ''0001.two-sum.go''
         (generateComments golang ?env ''2024/01/01 10:00'' exampleQuestion @ nl
            @ generateCode golang exampleQuestion [addCodeMark ?env ''//''] @ nl) False None]"
  have h: "exampleLangs \<noteq> []"
    by (simp add: exampleLangs_def)
  have l: "Lang (Code (cfg ?env)) = []"
    by (simp add: exampleEnv_def)
  have hd: "hd exampleLangs = ?g"
    by (simp add: exampleLangs_def)
  have s: "GetCodeSnippet exampleQuestion (Slug ?g) \<noteq> []"
    by (rule ex_golang_snippet)
  have b: "bootstrapLibrary ?g ?w = (None, ?w)"
    by (rule ex_golang_bootstrap)
  have g: "GenerateImpl ?g ?env (clock ?w) exampleQuestion = Inr ?fs"
    by (simp add: ex_golang_generate) (simp add: exampleWorld_def)
  have p: "outDir ?env = []"
          "filepath_Join ?env [ProjectRoot (cfg ?env), [], ''0001.two-sum.go''] = ''/p/0001.two-sum.go''"
    by (simp_all add: outDir_def exampleEnv_def unixJoin_examples)
  have wf: "fst (writeFiles ?env ?g (outDir ?env) ?fs (?w\<lparr>calls := calls ?w @ [CallGenerate]\<rparr>))
      = [FileOutput ''/p/0001.two-sum.go''
           (generateComments golang ?env ''2024/01/01 10:00'' exampleQuestion @ nl
              @ generateCode golang exampleQuestion [addCodeMark ?env ''//''] @ nl)
           True (Some ?g)]"
    by (simp add: p Let_def tryWrite_def IsExist_def ex_no_yes CreateIfNotExists_def WriteFile_def
          exampleWorld_def)
  note T = GetGenerator_empty_identifier [OF h, of ?env exampleQuestion ?w]
  from T l s b g have
    G: "Generate exampleLangs ?env exampleQuestion ?w
       = (Inr (fst (writeFiles ?env ?g (outDir ?env) ?fs (?w\<lparr>calls := calls ?w @ [CallGenerate]\<rparr>))),
          saveLastGenerated exampleQuestion ?g
            (snd (writeFiles ?env ?g (outDir ?env) ?fs (?w\<lparr>calls := calls ?w @ [CallGenerate]\<rparr>))))"
    and S: "Gen (LastGenerated (saved_state (snd (Generate exampleLangs ?env exampleQuestion ?w))))
           = Slug ?g"
    unfolding hd by blast+
  have F: "fst (Generate exampleLangs ?env exampleQuestion ?w)
      = Inr [FileOutput ''/p/0001.two-sum.go''
           (generateComments golang ?env ''2024/01/01 10:00'' exampleQuestion @ nl
              @ generateCode golang exampleQuestion [addCodeMark ?env ''//''] @ nl)
           True (Some ?g)]"
    unfolding G wf [symmetric] by (simp only: fst_conv)
  have N: "Slug ?g = ''golang''"
    by (simp add: baseLang_Generator_def golang_def)
  from T have R: "GetGenerator ?env exampleLangs [] = Some ?g"
    unfolding hd by blast
  from h l R F S [unfolded N] show ?thesis
    by blast
qed

end
